theory Spec2Isabelle
  imports Complex_Main
begin

text \<open>
  A model of the query side of the enterprise RAG pipeline
  (\<open>services/enterprise_rag_pipeline.py\<close>): retrieval breadth, context optimization, the
  quality gate, answer generation with its missing-data retry and the result cache; of the
  configuration update handler (\<open>routes/enterprise.py\<close>, \<open>config/enterprise_config.py\<close>);
  and of document deletion. Python exceptions are \<open>Inl\<close> results, mutable objects are passed
  in and returned, and the external services are parameters.
\<close>

section \<open>Strings\<close>

text \<open>
  Python strings are modelled as \<open>string\<close> (lists of 8-bit characters). The character
  classes used by \<open>str.lower\<close>, \<open>str.split\<close>, \<open>str.strip\<close> and the regular expression
  \<open>\W\<close> are the ASCII ones; characters outside ASCII are left alone by \<open>lower\<close> and count
  as neither white space nor word characters.
\<close>

definition lower_char :: "char \<Rightarrow> char" where
  "lower_char c =
     (case map_of (zip ''ABCDEFGHIJKLMNOPQRSTUVWXYZ'' ''abcdefghijklmnopqrstuvwxyz'') c of
        Some l \<Rightarrow> l
      | None \<Rightarrow> c)"

definition lower :: "string \<Rightarrow> string" where
  "lower s = map lower_char s"

fun starts_with :: "string \<Rightarrow> string \<Rightarrow> bool" where
  "starts_with [] s = True"
| "starts_with (p # ps) [] = False"
| "starts_with (p # ps) (c # cs) = (p = c \<and> starts_with ps cs)"

text \<open>\<open>substr_in needle hay\<close> is Python's \<open>needle in hay\<close> on strings.\<close>

fun substr_in :: "string \<Rightarrow> string \<Rightarrow> bool" where
  "substr_in needle [] = (needle = [])"
| "substr_in needle (c # cs) = (starts_with needle (c # cs) \<or> substr_in needle cs)"

text \<open>\<open>any(k in s for k in ks)\<close>.\<close>

definition any_in :: "string list \<Rightarrow> string \<Rightarrow> bool" where
  "any_in ks s = list_ex (\<lambda>k. substr_in k s) ks"

section \<open>Dynamic retrieval breadth\<close>

definition analytical_keywords :: "string list" where
  "analytical_keywords =
     [''average'', ''avg'', ''mean'', ''sum'', ''total'', ''count'', ''percentage'', ''%'',
      ''best'', ''worst'', ''top'', ''bottom'', ''highest'', ''lowest'', ''maximum'', ''minimum'',
      ''compare'', ''comparison'', ''versus'', ''vs'', ''against'', ''between'',
      ''performance'', ''efficiency'', ''rate'', ''ratio'', ''metric'', ''kpi'',
      ''wise'', ''by carrier'', ''by region'', ''by type'', ''group by'', ''breakdown'',
      ''trend'', ''analysis'', ''analytics'', ''statistics'', ''stats'',
      ''distribution'', ''correlation'', ''variance'', ''deviation'']"

definition is_analytical_query :: "string \<Rightarrow> bool" where
  "is_analytical_query query = any_in analytical_keywords (lower query)"

definition get_dynamic_top_k :: "string \<Rightarrow> int \<Rightarrow> int" where
  "get_dynamic_top_k query base_top_k =
     (if is_analytical_query query then
        (if any_in [''all'', ''every'', ''total'', ''complete''] (lower query) then 50
         else if any_in [''compare'', ''versus'', ''vs'', ''between''] (lower query) then 40
         else if any_in [''average'', ''mean'', ''performance'', ''wise''] (lower query) then 30
         else 20)
      else base_top_k)"

section \<open>Vector matches\<close>

datatype py_error = KeyError string | CollaboratorError string | InvalidId string

text \<open>
  The metadata dictionary of a match, with the keys the pipeline reads. A key that may be
  absent is an option: \<open>metadata.get(k, d)\<close> reads it with a default, \<open>metadata[k]\<close>
  raises \<open>KeyError\<close> when it is absent.
\<close>

record metadata =
  md_file_name :: "string option"
  md_text :: "string option"
  md_chunk_type :: "string option"
  md_document_type :: "string option"
  md_section_title :: "string option"
  md_page_number :: "int option"
  md_word_count :: "int option"
  md_upload_date :: "string option"
  md_doc_id :: "string option"
  md_file_path :: "string option"
  md_entities :: "string list option"
  md_enterprise_entities :: "(string \<times> string list) list option"

text \<open>
  A search result. \<open>enhanced_score\<close> is the attribute the optimizer assigns to the match
  object before it reads it; arithmetic on scores is exact (\<open>real\<close>), not floating point.
\<close>

record vmatch =
  mid :: string
  score :: real
  metadata :: metadata
  enhanced_score :: real

definition get_or :: "'a option \<Rightarrow> 'a \<Rightarrow> 'a" where
  "get_or v d = (case v of None \<Rightarrow> d | Some x \<Rightarrow> x)"

section \<open>Relevance boosts\<close>

definition enterprise_patterns :: "(string \<times> string list) list" where
  "enterprise_patterns =
     [(''financial_metrics'',
        [''revenue'', ''profit'', ''loss'', ''margin'', ''roi'', ''ebitda'', ''cash flow'',
         ''quarterly'', ''annual'', ''budget'', ''forecast'', ''earnings'']),
      (''business_terms'',
        [''strategy'', ''initiative'', ''project'', ''milestone'', ''deadline'',
         ''stakeholder'', ''customer'', ''client'', ''vendor'', ''supplier'']),
      (''technical_terms'',
        [''api'', ''database'', ''server'', ''application'', ''system'', ''platform'',
         ''integration'', ''deployment'', ''configuration'', ''architecture'']),
      (''legal_terms'',
        [''contract'', ''agreement'', ''clause'', ''compliance'', ''regulation'',
         ''policy'', ''procedure'', ''requirement'', ''obligation'', ''liability''])]"

text \<open>\<open>len(set(xs) & set(ys))\<close>.\<close>

definition count_common :: "string list \<Rightarrow> string list \<Rightarrow> nat" where
  "count_common xs ys = length (remdups (filter (\<lambda>x. List.member ys x) xs))"

definition calculate_entity_relevance_boost ::
  "vmatch \<Rightarrow> string list \<Rightarrow> string list \<Rightarrow> real" where
  "calculate_entity_relevance_boost m query_entity_names query_enterprise_terms =
     (let chunk_entities = get_or (md_entities (metadata m)) [];
          chunk_enterprise_entities = get_or (md_enterprise_entities (metadata m)) [];
          chunk_entity_names = map lower chunk_entities;
          entity_matches = count_common query_entity_names chunk_entity_names;
          boost1 = real entity_matches * (1 / 10);
          chunk_enterprise_terms = concat (map (\<lambda>(k, terms). map lower terms) chunk_enterprise_entities);
          enterprise_matches = count_common query_enterprise_terms chunk_enterprise_terms;
          boost2 = boost1 + real enterprise_matches * (5 / 100);
          chunk_doc_type = get_or (md_document_type (metadata m)) ''general'';
          patterns = get_or (map_of enterprise_patterns (chunk_doc_type @ ''_terms'')) [];
          boost3 = (if list_ex (\<lambda>term. List.member query_enterprise_terms term) patterns
                    then boost2 + 1 / 10 else boost2)
      in min boost3 (3 / 10))"

definition is_record_text :: "string \<Rightarrow> bool" where
  "is_record_text chunk_text =
     (substr_in ''Record'' chunk_text \<and> substr_in ''='' chunk_text \<and> substr_in ''|'' chunk_text)"

definition calculate_data_chunk_boost :: "vmatch \<Rightarrow> string \<Rightarrow> real" where
  "calculate_data_chunk_boost m query =
     (if \<not> is_analytical_query query then 0
      else
        let chunk_text = get_or (md_text (metadata m)) '''';
            chunk_type = get_or (md_chunk_type (metadata m)) ''unknown'';
            b1 = (if is_record_text chunk_text then 4 / 10 else 0);
            b2 = (if chunk_type = ''structured_row'' \<or> chunk_type = ''structured_data''
                  then b1 + 3 / 10 else b1);
            b3 = (if chunk_type = ''structured_header'' \<and> substr_in ''Columns:'' chunk_text
                     \<and> \<not> substr_in ''Record'' chunk_text
                  then b2 - 2 / 10 else b2);
            b4 = (if substr_in ''carrier'' (lower query) \<and> substr_in ''Carrier='' chunk_text
                  then b3 + 2 / 10 else b3);
            b5 = (if any_in [''delivery'', ''on-time'', ''performance''] (lower query)
                     \<and> substr_in ''On_Time='' chunk_text
                  then b4 + 2 / 10 else b4)
        in min b5 (5 / 10))"

section \<open>Context optimization\<close>

text \<open>
  \<open>xs.sort(key=f, reverse=True)\<close> and \<open>sorted(xs, key=f, reverse=True)\<close>: a stable sort
  into descending order of the key.
\<close>

definition sort_desc :: "('a \<Rightarrow> real) \<Rightarrow> 'a list \<Rightarrow> 'a list" where
  "sort_desc f xs = sort_key (\<lambda>x. - f x) xs"

text \<open>
  \<open>doc_groups[doc_name].append(match)\<close> on a \<open>defaultdict(list)\<close>: the dictionary keeps its
  keys in the order of their first insertion.
\<close>

fun group_append :: "(string \<times> vmatch list) list \<Rightarrow> string \<Rightarrow> vmatch \<Rightarrow> (string \<times> vmatch list) list" where
  "group_append [] k m = [(k, [m])]"
| "group_append ((k', ms) # g) k m =
     (if k' = k then (k', ms @ [m]) # g else (k', ms) # group_append g k m)"

definition doc_name_of :: "vmatch \<Rightarrow> string" where
  "doc_name_of m = get_or (md_file_name (metadata m)) ''unknown''"

definition group_by_doc :: "vmatch list \<Rightarrow> (string \<times> vmatch list) list" where
  "group_by_doc ms = foldl (\<lambda>g m. group_append g (doc_name_of m) m) [] ms"

text \<open>\<open>max(m.score for m in ms)\<close>; the groups it is applied to are never empty.\<close>

fun max_score :: "vmatch list \<Rightarrow> real" where
  "max_score [] = 0"
| "max_score [m] = score m"
| "max_score (m # ms) = max (score m) (max_score ms)"

definition is_space :: "char \<Rightarrow> bool" where
  "is_space c = List.member [CHR '' '', CHR 0x09, CHR 0x0A, CHR 0x0B, CHR 0x0C, CHR 0x0D,
                             CHR 0x1C, CHR 0x1D, CHR 0x1E, CHR 0x1F] c"

text \<open>\<open>len(s.split())\<close>: the number of maximal runs of characters that are not white space.\<close>

fun split_count :: "bool \<Rightarrow> string \<Rightarrow> nat" where
  "split_count in_word [] = 0"
| "split_count in_word (c # cs) =
     (if is_space c then split_count False cs
      else if in_word then split_count True cs
      else Suc (split_count True cs))"

definition word_count :: "string \<Rightarrow> nat" where
  "word_count s = split_count False s"

text \<open>\<open>len(match.metadata['text'].split()) * 1.3\<close>.\<close>

definition chunk_tokens :: "vmatch \<Rightarrow> py_error + real" where
  "chunk_tokens m =
     (case md_text (metadata m) of
        None \<Rightarrow> Inl (KeyError ''text'')
      | Some t \<Rightarrow> Inr (real (word_count t) * (13 / 10)))"

definition prioritize :: "string \<Rightarrow> vmatch list \<Rightarrow> vmatch list" where
  "prioritize query doc_matches =
     (if is_analytical_query query then
        (let data_chunks = filter (\<lambda>m. is_record_text (get_or (md_text (metadata m)) '''')) doc_matches;
             metadata_chunks = filter (\<lambda>m. \<not> is_record_text (get_or (md_text (metadata m)) '''')) doc_matches
         in sort_desc enhanced_score data_chunks @ sort_desc enhanced_score metadata_chunks)
      else sort_desc enhanced_score doc_matches)"

text \<open>
  The inner loop over the matches of one document. The state is the pair
  \<open>(selected_chunks, total_tokens)\<close>; both \<open>break\<close>s leave the loop with the state reached.
\<close>

fun select_from_doc ::
  "real \<Rightarrow> int \<Rightarrow> vmatch list \<Rightarrow> vmatch list \<times> real \<Rightarrow> py_error + vmatch list \<times> real" where
  "select_from_doc mx top_k [] st = Inr st"
| "select_from_doc mx top_k (m # ms) (selected_chunks, total_tokens) =
     (case chunk_tokens m of
        Inl e \<Rightarrow> Inl e
      | Inr ct \<Rightarrow>
          if total_tokens + ct > mx then Inr (selected_chunks, total_tokens)
          else
            let selected' = selected_chunks @ [m]; total' = total_tokens + ct
            in if int (length selected') \<ge> top_k then Inr (selected', total')
               else select_from_doc mx top_k ms (selected', total'))"

text \<open>The outer loop over the documents, in sorted order.\<close>

fun select_from_docs ::
  "real \<Rightarrow> int \<Rightarrow> string \<Rightarrow> (string \<times> vmatch list) list \<Rightarrow> vmatch list \<times> real
     \<Rightarrow> py_error + vmatch list \<times> real" where
  "select_from_docs mx top_k query [] st = Inr st"
| "select_from_docs mx top_k query ((doc_name, doc_matches) # rest) st =
     (case select_from_doc mx top_k (prioritize query doc_matches) st of
        Inl e \<Rightarrow> Inl e
      | Inr (selected', total') \<Rightarrow>
          if int (length selected') \<ge> top_k then Inr (selected', total')
          else select_from_docs mx top_k query rest (selected', total'))"

section \<open>Results, pipeline state and collaborators\<close>

record source_info =
  src_file_name :: string
  src_file_id :: "string option"
  src_file_path :: "string option"
  src_document_type :: string
  src_section_title :: string
  src_page_number :: int
  src_chunk_text :: string
  src_relevance_score :: real
  src_word_count :: int
  src_upload_date :: string

text \<open>
  Tables, charts and images are produced by the rich-content collaborator and are opaque
  here. The timing entries of \<open>processing_metadata\<close> (wall-clock measurements) are left out.
\<close>

datatype rich_content = RichContent "string list"

datatype processing_metadata =
    DocumentMetadata (total_chunks_analyzed: nat) (chunks_used: nat)
      (avg_relevance_score: real) (meta_document_types: "string list")
  | GeneralMetadata (response_enhanced: bool)

text \<open>The dictionary returned by \<open>_generate_general_knowledge_response\<close>.\<close>

record general_response =
  answer :: string
  sources :: "source_info list"
  confidence :: real
  context_quality :: real
  response_type :: string

text \<open>The payload returned by \<open>query_documents\<close>.\<close>

record result = general_response +
  rich_content :: rich_content
  processing_metadata :: processing_metadata

record pipeline =
  query_cache :: "(string \<times> result) list"
  cache_max_size :: int
  similarity_threshold :: real
  min_context_relevance :: real
  max_context_tokens :: int

text \<open>
  What is sent to the language model. The two messages are text built from a prompt
  template, the query and the selected chunks; the request records these three, which
  determine the text.
\<close>

datatype llm_request =
    EnterprisePrompt string string "vmatch list"
  | GeneralPrompt bool string

text \<open>
  The calls made so far, oldest first. Every call of a collaborator is appended, and so is
  every run of the context optimizer, so that a statement about which steps were performed
  can be read off the list.
\<close>

datatype event =
    EvEmbed string
  | EvSearch string int
  | EvOptimize int
  | EvGenerate llm_request

text \<open>
  The external collaborators. An exception raised by a collaborator is the \<open>Inl\<close> result.
  The embedding service, the vector store and the language model may answer differently
  from one call to the next, so they see the calls made so far.
\<close>

record collab =
  extract_entities :: "string \<Rightarrow> string list \<times> (string \<times> string list) list"
  embed_text :: "event list \<Rightarrow> string \<Rightarrow> py_error + real list"
  query_vectors :: "event list \<Rightarrow> real list \<Rightarrow> string \<Rightarrow> int \<Rightarrow> py_error + vmatch list"
  llm_invoke :: "event list \<Rightarrow> llm_request \<Rightarrow> py_error + string"
  generate_rich_content :: "string \<Rightarrow> vmatch list \<Rightarrow> string \<Rightarrow> rich_content"
  generate_rich_content_for_general_query :: "string \<Rightarrow> rich_content"

section \<open>Context optimization: the whole operation\<close>

text \<open>
  The dictionary returned by the optimizer. \<open>document_types\<close> is \<open>list(set(...))\<close> in the
  source, whose order is not fixed; here it is the duplicate-free list in list order. The
  pipeline only tests membership in it.
\<close>

record optimized_context =
  chunks :: "vmatch list"
  ctx_sources :: "vmatch list"
  ctx_confidence :: real
  quality_score :: real
  avg_relevance :: real
  document_types :: "string list"

definition sum_scores :: "vmatch list \<Rightarrow> real" where
  "sum_scores ms = sum_list (map score ms)"

text \<open>\<open>max(doc_types.count(t) for t in set(doc_types))\<close>.\<close>

definition max_count :: "string list \<Rightarrow> nat" where
  "max_count xs = foldr (\<lambda>t acc. max (count_list xs t) acc) xs 0"

definition calculate_context_quality :: "vmatch list \<Rightarrow> string \<Rightarrow> real" where
  "calculate_context_quality cs query =
     (if cs = [] then 0
      else
        let n = real (length cs);
            relevance_score = sum_scores cs / n;
            diversity_score = real (length (remdups (map (\<lambda>c. md_file_name (metadata c)) cs))) / n;
            completeness_score = min (n / 5) 1;
            doc_types = map (\<lambda>c. get_or (md_document_type (metadata c)) ''general'') cs;
            type_consistency = real (max_count doc_types) / real (length doc_types);
            quality = relevance_score * (4 / 10) + diversity_score * (2 / 10)
                      + completeness_score * (2 / 10) + type_consistency * (2 / 10)
        in min quality 1)"

definition enhance_matches :: "collab \<Rightarrow> string \<Rightarrow> vmatch list \<Rightarrow> vmatch list" where
  "enhance_matches w query relevant_matches =
     (let query_entities = extract_entities w query;
          query_entity_names = map lower (fst query_entities);
          query_enterprise_terms = concat (map (\<lambda>(k, terms). map lower terms) (snd query_entities))
      in map (\<lambda>m. m\<lparr>enhanced_score :=
                      score m + calculate_entity_relevance_boost m query_entity_names query_enterprise_terms
                      + calculate_data_chunk_boost m query\<rparr>) relevant_matches)"

definition sorted_docs_of :: "collab \<Rightarrow> pipeline \<Rightarrow> vmatch list \<Rightarrow> string
    \<Rightarrow> (string \<times> vmatch list) list" where
  "sorted_docs_of w p matches query =
     (let relevant_matches = filter (\<lambda>m. score m \<ge> min_context_relevance p) matches;
          enhanced_matches = sort_desc enhanced_score (enhance_matches w query relevant_matches);
          doc_groups = group_by_doc enhanced_matches
      in sort_desc (\<lambda>g. max_score (snd g)) doc_groups)"

definition optimize_context_selection ::
  "collab \<Rightarrow> pipeline \<Rightarrow> vmatch list \<Rightarrow> string \<Rightarrow> int \<Rightarrow> py_error + optimized_context" where
  "optimize_context_selection w p matches query top_k =
     (case select_from_docs (real_of_int (max_context_tokens p)) top_k query
             (sorted_docs_of w p matches query) ([], 0) of
        Inl e \<Rightarrow> Inl e
      | Inr (selected_chunks, total_tokens) \<Rightarrow>
          if selected_chunks = [] then
            Inr \<lparr>chunks = [], ctx_sources = [], ctx_confidence = 0, quality_score = 0,
                 avg_relevance = 0, document_types = []\<rparr>
          else
            let avg = sum_scores selected_chunks / real (length selected_chunks)
            in Inr \<lparr>chunks = selected_chunks, ctx_sources = selected_chunks,
                    ctx_confidence = min (max avg 0) 1,
                    quality_score = calculate_context_quality selected_chunks query,
                    avg_relevance = avg,
                    document_types =
                      remdups (map (\<lambda>c. get_or (md_document_type (metadata c)) ''general'')
                                 selected_chunks)\<rparr>)"

section \<open>Query preprocessing and the cache\<close>

text \<open>\<open>s.replace(old, new)\<close>: non-overlapping occurrences, from the left.\<close>

fun replace_from :: "string \<Rightarrow> string \<Rightarrow> nat \<Rightarrow> string \<Rightarrow> string" where
  "replace_from old new skip [] = []"
| "replace_from old new (Suc k) (c # cs) = replace_from old new k cs"
| "replace_from old new 0 (c # cs) =
     (if starts_with old (c # cs) then new @ replace_from old new (length old - 1) cs
      else c # replace_from old new 0 cs)"

definition replace_str :: "string \<Rightarrow> string \<Rightarrow> string \<Rightarrow> string" where
  "replace_str old new s =
     (if old = [] then new @ concat (map (\<lambda>c. c # new) s) else replace_from old new 0 s)"

definition strip :: "string \<Rightarrow> string" where
  "strip s = rev (dropWhile is_space (rev (dropWhile is_space s)))"

definition abbreviations :: "(string \<times> string) list" where
  "abbreviations =
     [(''ai'', ''artificial intelligence''),
      (''ml'', ''machine learning''),
      (''api'', ''application programming interface''),
      (''roi'', ''return on investment''),
      (''kpi'', ''key performance indicator'')]"

definition preprocess_query :: "string \<Rightarrow> string" where
  "preprocess_query query =
     strip (foldl (\<lambda>q (abbr, expansion).
                     replace_str ('' '' @ abbr @ ''.'') ('' '' @ expansion)
                       (replace_str ('' '' @ abbr @ '' '') ('' '' @ expansion @ '' '') q))
              (lower query) abbreviations)"

definition is_word_char :: "char \<Rightarrow> bool" where
  "is_word_char c =
     List.member ''abcdefghijklmnopqrstuvwxyzABCDEFGHIJKLMNOPQRSTUVWXYZ0123456789_'' c"

text \<open>\<open>re.sub(r'\W+', ' ', s)\<close>: every maximal run of non-word characters becomes one space.\<close>

fun collapse_nonword :: "bool \<Rightarrow> string \<Rightarrow> string" where
  "collapse_nonword in_run [] = []"
| "collapse_nonword in_run (c # cs) =
     (if is_word_char c then c # collapse_nonword False cs
      else if in_run then collapse_nonword True cs
      else CHR '' '' # collapse_nonword True cs)"

definition generate_semantic_cache_key :: "string \<Rightarrow> string \<Rightarrow> string" where
  "generate_semantic_cache_key query tenant_id =
     tenant_id @ '':'' @ strip (collapse_nonword False (lower query))"

text \<open>
  The cache is a Python dictionary: keys are distinct and kept in insertion order.
  \<open>d[k] = v\<close> replaces the value of a key that is present and appends a new key.
\<close>

fun dict_set :: "('k \<times> 'v) list \<Rightarrow> 'k \<Rightarrow> 'v \<Rightarrow> ('k \<times> 'v) list" where
  "dict_set [] k v = [(k, v)]"
| "dict_set ((k', v') # d) k v =
     (if k' = k then (k', v) # d else (k', v') # dict_set d k v)"

definition cache_result :: "pipeline \<Rightarrow> string \<Rightarrow> result \<Rightarrow> pipeline" where
  "cache_result p cache_key r =
     (let c = (if int (length (query_cache p)) \<ge> cache_max_size p
               then drop 50 (query_cache p) else query_cache p)
      in p\<lparr>query_cache := dict_set c cache_key r\<rparr>)"

section \<open>Answer generation\<close>

definition apology_general :: string where
  "apology_general = ''I apologize, but I encountered an error while processing your question. Please try again, and I'' @ [CHR 0x27] @ ''ll provide you with a comprehensive response.''"

definition apology_enterprise :: string where
  "apology_enterprise = ''I apologize, but I encountered an error while generating the comprehensive response. Please try again, and I'' @ [CHR 0x27] @ ''ll provide you with a detailed analysis based on the available documents.''"

definition is_visualization_request :: "string \<Rightarrow> bool" where
  "is_visualization_request query =
     any_in [''chart'', ''graph'', ''visualize'', ''plot'', ''pie chart'', ''bar chart'',
             ''create'', ''show'', ''display''] (lower query)"

definition generate_general_knowledge_response ::
  "collab \<Rightarrow> event list \<Rightarrow> string \<Rightarrow> string \<Rightarrow> string \<Rightarrow> general_response \<times> event list" where
  "generate_general_knowledge_response w h query tenant_id user_id =
     (let req = GeneralPrompt (is_visualization_request query) query
      in case llm_invoke w h req of
           Inr content \<Rightarrow>
             (\<lparr>answer = strip content, sources = [], confidence = 8 / 10,
               context_quality = 8 / 10, response_type = ''general_knowledge''\<rparr>,
              h @ [EvGenerate req])
         | Inl e \<Rightarrow>
             (\<lparr>answer = apology_general, sources = [], confidence = 0,
               context_quality = 0, response_type = ''error''\<rparr>,
              h @ [EvGenerate req]))"

definition select_system_prompt :: "string list \<Rightarrow> string" where
  "select_system_prompt dts =
     (if List.member dts ''logistics'' then ''logistics_analyst''
      else if List.member dts ''financial'' then ''financial_analyst''
      else if List.member dts ''legal'' then ''legal_expert''
      else if List.member dts ''technical'' then ''technical_expert''
      else if List.member dts ''policy'' then ''policy_expert''
      else ''general_expert'')"

text \<open>
  Building the context text reads \<open>chunk.metadata['text']\<close> of every chunk, outside the
  \<open>try\<close> block: a chunk without text raises \<open>KeyError\<close>.
\<close>

definition generate_enterprise_answer ::
  "collab \<Rightarrow> event list \<Rightarrow> string \<Rightarrow> optimized_context \<Rightarrow> (py_error + string) \<times> event list" where
  "generate_enterprise_answer w h query ctx =
     (if chunks ctx = [] then
        (let (g, h') = generate_general_knowledge_response w h query '''' '''' in (Inr (answer g), h'))
      else if list_ex (\<lambda>c. md_text (metadata c) = None) (chunks ctx) then
        (Inl (KeyError ''text''), h)
      else
        let req = EnterprisePrompt (select_system_prompt (document_types ctx)) query (chunks ctx)
        in case llm_invoke w h req of
             Inr content \<Rightarrow> (Inr (strip content), h @ [EvGenerate req])
           | Inl e \<Rightarrow> (Inr apology_enterprise, h @ [EvGenerate req]))"

definition missing_data_indicators :: "string list" where
  "missing_data_indicators =
     [''data is missing'', ''information is missing'', ''not possible to determine'',
      ''cannot be performed'', ''data linking'', ''additional data'', ''no field'',
      ''no information'', ''cannot find'', ''not available in'', ''missing information'']"

definition has_missing_data :: "string \<Rightarrow> bool" where
  "has_missing_data a = any_in missing_data_indicators (lower a)"

text \<open>
  The body of the \<open>try\<close> block of the retry. \<open>Inr None\<close>: the block ended without a
  \<open>return\<close> because the search returned no match; \<open>Inl e\<close>: it raised \<open>e\<close>.
\<close>

definition retry_with_more_data ::
  "collab \<Rightarrow> pipeline \<Rightarrow> event list \<Rightarrow> string \<Rightarrow> string
     \<Rightarrow> (py_error + string option) \<times> event list" where
  "retry_with_more_data w p h query tenant_id =
     (case embed_text w h query of
        Inl e \<Rightarrow> (Inl e, h @ [EvEmbed query])
      | Inr query_embedding \<Rightarrow>
          (let h1 = h @ [EvEmbed query] in
           case query_vectors w h1 query_embedding tenant_id 50 of
             Inl e \<Rightarrow> (Inl e, h1 @ [EvSearch tenant_id 50])
           | Inr matches \<Rightarrow>
               (let h2 = h1 @ [EvSearch tenant_id 50] in
                if matches = [] then (Inr None, h2)
                else
                  (case optimize_context_selection w p matches query 50 of
                     Inl e \<Rightarrow> (Inl e, h2 @ [EvOptimize 50])
                   | Inr optimized_context \<Rightarrow>
                       (case generate_enterprise_answer w (h2 @ [EvOptimize 50]) query
                               optimized_context of
                          (Inl e, h3) \<Rightarrow> (Inl e, h3)
                        | (Inr fallback_answer, h3) \<Rightarrow> (Inr (Some fallback_answer), h3))))))"

definition generate_enterprise_answer_with_fallback ::
  "collab \<Rightarrow> pipeline \<Rightarrow> event list \<Rightarrow> string \<Rightarrow> optimized_context \<Rightarrow> int \<Rightarrow> string
     \<Rightarrow> (py_error + string) \<times> event list" where
  "generate_enterprise_answer_with_fallback w p h query ctx current_top_k tenant_id =
     (case generate_enterprise_answer w h query ctx of
        (Inl e, h1) \<Rightarrow> (Inl e, h1)
      | (Inr first_answer, h1) \<Rightarrow>
          if has_missing_data first_answer \<and> is_analytical_query query \<and> current_top_k < 40 then
            (case retry_with_more_data w p h1 query tenant_id of
               (Inl e, h2) \<Rightarrow> (Inr first_answer, h2)
             | (Inr None, h2) \<Rightarrow> (Inr first_answer, h2)
             | (Inr (Some fallback_answer), h2) \<Rightarrow>
                 if \<not> has_missing_data fallback_answer
                    \<or> length fallback_answer > length first_answer
                 then (Inr fallback_answer, h2)
                 else (Inr first_answer, h2))
          else (Inr first_answer, h1))"

section \<open>The query pipeline\<close>

fun format_sources :: "string list \<Rightarrow> vmatch list \<Rightarrow> source_info list" where
  "format_sources seen_files [] = []"
| "format_sources seen_files (s # ss) =
     (let md = metadata s; file_name = get_or (md_file_name md) ''Unknown''
      in if List.member seen_files file_name then format_sources seen_files ss
         else \<lparr>src_file_name = file_name,
               src_file_id = md_doc_id md,
               src_file_path = md_file_path md,
               src_document_type = get_or (md_document_type md) ''general'',
               src_section_title = get_or (md_section_title md) '''',
               src_page_number = get_or (md_page_number md) 0,
               src_chunk_text = get_or (md_text md) '''',
               src_relevance_score = score s,
               src_word_count = get_or (md_word_count md) 0,
               src_upload_date = get_or (md_upload_date md) ''''\<rparr>
              # format_sources (file_name # seen_files) ss)"

definition format_enterprise_sources :: "vmatch list \<Rightarrow> source_info list" where
  "format_enterprise_sources ss = sort_desc src_relevance_score (format_sources [] ss)"

definition query_documents ::
  "collab \<Rightarrow> pipeline \<Rightarrow> event list \<Rightarrow> string \<Rightarrow> string \<Rightarrow> string \<Rightarrow> int
     \<Rightarrow> (py_error + result) \<times> pipeline \<times> event list" where
  "query_documents w p h query tenant_id user_id top_k =
     (let processed_query = preprocess_query query;
          dynamic_top_k = get_dynamic_top_k query top_k;
          cache_key = generate_semantic_cache_key processed_query tenant_id
      in case map_of (query_cache p) cache_key of
           Some cached_result \<Rightarrow> (Inr cached_result, p, h)
         | None \<Rightarrow>
             (case embed_text w h processed_query of
                Inl e \<Rightarrow> (Inl e, p, h @ [EvEmbed processed_query])
              | Inr query_embedding \<Rightarrow>
                  (let h1 = h @ [EvEmbed processed_query] in
                   case query_vectors w h1 query_embedding tenant_id dynamic_top_k of
                     Inl e \<Rightarrow> (Inl e, p, h1 @ [EvSearch tenant_id dynamic_top_k])
                   | Inr matches \<Rightarrow>
                       (let h2 = h1 @ [EvSearch tenant_id dynamic_top_k] in
                        if matches = [] \<or> max_score matches < similarity_threshold p then
                          (let (g, h3) = generate_general_knowledge_response w h2 query tenant_id user_id
                           in (Inr \<lparr>answer = answer g, sources = sources g,
                                    confidence = confidence g, context_quality = context_quality g,
                                    response_type = response_type g,
                                    rich_content = generate_rich_content_for_general_query w query,
                                    processing_metadata = GeneralMetadata True\<rparr>, p, h3))
                        else
                          (case optimize_context_selection w p matches query top_k of
                             Inl e \<Rightarrow> (Inl e, p, h2 @ [EvOptimize top_k])
                           | Inr optimized_context \<Rightarrow>
                               (case generate_enterprise_answer_with_fallback w p
                                       (h2 @ [EvOptimize top_k]) query optimized_context
                                       dynamic_top_k tenant_id of
                                  (Inl e, h4) \<Rightarrow> (Inl e, p, h4)
                                | (Inr a, h4) \<Rightarrow>
                                    (let r = \<lparr>answer = a,
                                              sources = format_enterprise_sources (ctx_sources optimized_context),
                                              confidence = ctx_confidence optimized_context,
                                              context_quality = quality_score optimized_context,
                                              response_type = ''document_based'',
                                              rich_content = generate_rich_content w a (chunks optimized_context) query,
                                              processing_metadata =
                                                DocumentMetadata (length matches)
                                                  (length (chunks optimized_context))
                                                  (avg_relevance optimized_context)
                                                  (document_types optimized_context)\<rparr>
                                     in (Inr r, cache_result p cache_key r, h4))))))))"

section \<open>Configuration\<close>

record chunking_config =
  chunk_size :: int
  chunk_overlap :: int
  max_chunks_per_document :: int
  min_chunk_words :: int

record retrieval_config =
  retrieval_similarity_threshold :: real
  retrieval_min_context_relevance :: real
  retrieval_max_context_tokens :: int
  top_k_retrieval :: int
  top_k_final :: int

record response_config =
  temperature :: real
  max_output_tokens :: int
  enable_citations :: bool
  enable_confidence_scores :: bool

record cache_config =
  enable_cache :: bool
  cache_size :: int
  cache_ttl_hours :: int
  semantic_similarity_threshold :: real

record quality_config =
  min_response_length :: int
  max_response_length :: int
  enable_fact_checking :: bool
  enable_hallucination_detection :: bool

record enterprise_config =
  chunking :: chunking_config
  retrieval :: retrieval_config
  response :: response_config
  cache :: cache_config
  quality :: quality_config

text \<open>The dataclass defaults.\<close>

definition default_config :: enterprise_config where
  "default_config =
     \<lparr>chunking = \<lparr>chunk_size = 1200, chunk_overlap = 200, max_chunks_per_document = 100,
                   min_chunk_words = 20\<rparr>,
      retrieval = \<lparr>retrieval_similarity_threshold = 5 / 10,
                    retrieval_min_context_relevance = 4 / 10,
                    retrieval_max_context_tokens = 6000, top_k_retrieval = 16, top_k_final = 8\<rparr>,
      response = \<lparr>temperature = 0, max_output_tokens = 4000, enable_citations = True,
                   enable_confidence_scores = True\<rparr>,
      cache = \<lparr>enable_cache = True, cache_size = 500, cache_ttl_hours = 24,
                semantic_similarity_threshold = 9 / 10\<rparr>,
      quality = \<lparr>min_response_length = 50, max_response_length = 3000,
                  enable_fact_checking = True, enable_hallucination_detection = True\<rparr>\<rparr>"

definition validate_config :: "enterprise_config \<Rightarrow> bool" where
  "validate_config c =
     (100 \<le> chunk_size (chunking c) \<and> chunk_size (chunking c) \<le> 5000
      \<and> 0 \<le> chunk_overlap (chunking c) \<and> chunk_overlap (chunking c) < chunk_size (chunking c)
      \<and> 0 \<le> retrieval_similarity_threshold (retrieval c)
      \<and> retrieval_similarity_threshold (retrieval c) \<le> 1
      \<and> 1000 \<le> retrieval_max_context_tokens (retrieval c)
      \<and> retrieval_max_context_tokens (retrieval c) \<le> 20000
      \<and> 0 \<le> temperature (response c) \<and> temperature (response c) \<le> 2
      \<and> 100 \<le> max_output_tokens (response c) \<and> max_output_tokens (response c) \<le> 8000)"

record config_update_request =
  upd_chunk_size :: "int option"
  upd_chunk_overlap :: "int option"
  upd_similarity_threshold :: "real option"
  upd_max_context_tokens :: "int option"
  upd_temperature :: "real option"
  upd_max_output_tokens :: "int option"
  upd_enable_cache :: "bool option"

record current_user =
  role :: "string option"
  email :: "string option"

datatype http_exception = HTTPException int string

record update_response =
  message :: string
  config :: enterprise_config
  updated_by :: string

text \<open>The assignments of the handler, in its order; each is made when the field is given.\<close>

definition apply_update :: "enterprise_config \<Rightarrow> config_update_request \<Rightarrow> enterprise_config" where
  "apply_update c u =
     (let c1 = (case upd_chunk_size u of None \<Rightarrow> c
                | Some v \<Rightarrow> c\<lparr>chunking := (chunking c)\<lparr>chunk_size := v\<rparr>\<rparr>);
          c2 = (case upd_chunk_overlap u of None \<Rightarrow> c1
                | Some v \<Rightarrow> c1\<lparr>chunking := (chunking c1)\<lparr>chunk_overlap := v\<rparr>\<rparr>);
          c3 = (case upd_similarity_threshold u of None \<Rightarrow> c2
                | Some v \<Rightarrow> c2\<lparr>retrieval := (retrieval c2)\<lparr>retrieval_similarity_threshold := v\<rparr>\<rparr>);
          c4 = (case upd_max_context_tokens u of None \<Rightarrow> c3
                | Some v \<Rightarrow> c3\<lparr>retrieval := (retrieval c3)\<lparr>retrieval_max_context_tokens := v\<rparr>\<rparr>);
          c5 = (case upd_temperature u of None \<Rightarrow> c4
                | Some v \<Rightarrow> c4\<lparr>response := (response c4)\<lparr>temperature := v\<rparr>\<rparr>);
          c6 = (case upd_max_output_tokens u of None \<Rightarrow> c5
                | Some v \<Rightarrow> c5\<lparr>response := (response c5)\<lparr>max_output_tokens := v\<rparr>\<rparr>);
          c7 = (case upd_enable_cache u of None \<Rightarrow> c6
                | Some v \<Rightarrow> c6\<lparr>cache := (cache c6)\<lparr>enable_cache := v\<rparr>\<rparr>)
      in c7)"

text \<open>
  The handler works on the process-wide configuration object: it takes the configuration in
  effect and returns, with its answer, the configuration in effect afterwards.
\<close>

definition update_enterprise_config ::
  "enterprise_config \<Rightarrow> config_update_request \<Rightarrow> current_user
     \<Rightarrow> (http_exception + update_response) \<times> enterprise_config" where
  "update_enterprise_config c u usr =
     (if role usr \<noteq> Some ''admin'' then
        (Inl (HTTPException 403 ''Admin access required to update enterprise configuration''), c)
      else
        let c' = apply_update c u in
        if \<not> validate_config c' then
          (Inl (HTTPException 400 ''Invalid configuration values provided''), c')
        else
          case email usr of
            None \<Rightarrow> (Inl (HTTPException 500 ''Failed to update enterprise configuration''), c')
          | Some em \<Rightarrow>
              (Inr \<lparr>message = ''Enterprise configuration updated successfully'',
                    config = c', updated_by = em\<rparr>, c'))"

section \<open>Deleting a document\<close>

record document =
  doc_oid :: string
  doc_tenant_id :: string
  doc_file_name :: string

text \<open>
  The two stores a document lives in: the metadata records of the document database, and
  the vectors of the vector store, by namespace. \<open>db_outcomes\<close> tells whether the coming
  calls to the document database go through (\<open>True\<close>) or raise (\<open>False\<close>), the next call
  first; calls beyond the list go through.
\<close>

record stores =
  documents :: "document list"
  vector_index :: "string \<Rightarrow> vmatch list"
  db_outcomes :: "bool list"

definition db_call :: "stores \<Rightarrow> bool \<times> stores" where
  "db_call st = (case db_outcomes st of [] \<Rightarrow> (True, st) | b # bs \<Rightarrow> (b, st\<lparr>db_outcomes := bs\<rparr>))"

definition get_documents_by_tenant :: "stores \<Rightarrow> string \<Rightarrow> (py_error + document list) \<times> stores" where
  "get_documents_by_tenant st tenant_id =
     (let (ok, st1) = db_call st
      in if ok then (Inr (filter (\<lambda>d. doc_tenant_id d = tenant_id) (documents st1)), st1)
         else (Inl (CollaboratorError ''database''), st1))"

text \<open>\<open>delete_one\<close>: the first record with this id and tenant is removed.\<close>

fun delete_one :: "document list \<Rightarrow> string \<Rightarrow> string \<Rightarrow> document list" where
  "delete_one [] doc_id tenant_id = []"
| "delete_one (d # ds) doc_id tenant_id =
     (if doc_oid d = doc_id \<and> doc_tenant_id d = tenant_id then ds
      else d # delete_one ds doc_id tenant_id)"

text \<open>
  \<open>ObjectId(doc_id)\<close> of the database driver: a string of 24 hexadecimal digits is an
  object id, any other string raises \<open>InvalidId\<close>. The \<open>_id\<close> of a record is an object id,
  and \<open>doc_oid\<close> is its string form.
\<close>

definition is_hex_digit :: "char \<Rightarrow> bool" where
  "is_hex_digit c = List.member ''0123456789abcdefABCDEF'' c"

definition valid_object_id :: "string \<Rightarrow> bool" where
  "valid_object_id s = (length s = 24 \<and> list_all is_hex_digit s)"

text \<open>
  \<open>DocumentModel.delete_document\<close>: the object id is built first, then the record is
  deleted; the answer tells whether a record was deleted.
\<close>

definition document_model_delete :: "stores \<Rightarrow> string \<Rightarrow> string \<Rightarrow> (py_error + bool) \<times> stores" where
  "document_model_delete st doc_id tenant_id =
     (if \<not> valid_object_id doc_id then (Inl (InvalidId doc_id), st)
      else
        let (ok, st1) = db_call st
        in if ok then
             (Inr (list_ex (\<lambda>d. doc_oid d = doc_id \<and> doc_tenant_id d = tenant_id) (documents st1)),
              st1\<lparr>documents := delete_one (documents st1) doc_id tenant_id\<rparr>)
           else (Inl (CollaboratorError ''database''), st1))"

definition delete_document :: "stores \<Rightarrow> string \<Rightarrow> string \<Rightarrow> bool \<times> stores" where
  "delete_document st doc_id tenant_id =
     (case get_documents_by_tenant st tenant_id of
        (Inl e, st1) \<Rightarrow> (False, st1)
      | (Inr docs, st1) \<Rightarrow>
          (case find (\<lambda>d. doc_oid d = doc_id) docs of
             None \<Rightarrow> (False, st1)
           | Some target_doc \<Rightarrow>
               (case document_model_delete st1 doc_id tenant_id of
                  (Inl e, st2) \<Rightarrow> (False, st2)
                | (Inr deleted, st2) \<Rightarrow> if \<not> deleted then (False, st2) else (True, st2))))"

text \<open>
  The vector search of the pipeline, answered from the store: the vector store ranks the
  vectors held in the namespace against the query vector and returns up to \<open>top_k\<close> of
  them. The ranking is the vector store's own and is a parameter.
\<close>

definition store_query_vectors ::
  "(real list \<Rightarrow> vmatch list \<Rightarrow> int \<Rightarrow> vmatch list) \<Rightarrow> stores
     \<Rightarrow> real list \<Rightarrow> string \<Rightarrow> int \<Rightarrow> py_error + vmatch list" where
  "store_query_vectors rank st query_vector namespace top_k =
     Inr (rank query_vector (vector_index st namespace) top_k)"

text \<open>Collaborators whose vector search reads the store.\<close>

definition store_world ::
  "(real list \<Rightarrow> vmatch list \<Rightarrow> int \<Rightarrow> vmatch list) \<Rightarrow> stores \<Rightarrow> collab \<Rightarrow> collab" where
  "store_world rank st w = w\<lparr>query_vectors := (\<lambda>h. store_query_vectors rank st)\<rparr>"

section \<open>Notions used to state the properties\<close>

text \<open>Caching a sequence of results, one after the other.\<close>

definition cache_all :: "pipeline \<Rightarrow> (string \<times> result) list \<Rightarrow> pipeline" where
  "cache_all p kvs = foldl (\<lambda>p (k, r). cache_result p k r) p kvs"

text \<open>\<open>cache_key in self.query_cache\<close>.\<close>

definition retrievable :: "pipeline \<Rightarrow> string \<Rightarrow> bool" where
  "retrievable p k = (map_of (query_cache p) k \<noteq> None)"

definition sample_result :: result where
  "sample_result =
     \<lparr>answer = ''ok'', sources = [], confidence = 1, context_quality = 1,
      response_type = ''document_based'', rich_content = RichContent [],
      processing_metadata = DocumentMetadata 1 1 1 []\<rparr>"

definition small_cache :: pipeline where
  "small_cache =
     \<lparr>query_cache = [], cache_max_size = 2, similarity_threshold = 5 / 10,
      min_context_relevance = 4 / 10, max_context_tokens = 6000\<rparr>"

definition three_entries :: "(string \<times> result) list" where
  "three_entries = [(''t:a'', sample_result), (''t:b'', sample_result), (''t:c'', sample_result)]"

definition admin_user :: current_user where
  "admin_user = \<lparr>role = Some ''admin'', email = Some ''admin@example.com''\<rparr>"

definition bad_update :: config_update_request where
  "bad_update =
     \<lparr>upd_chunk_size = Some 50, upd_chunk_overlap = None, upd_similarity_threshold = None,
      upd_max_context_tokens = None, upd_temperature = None, upd_max_output_tokens = None,
      upd_enable_cache = None\<rparr>"

text \<open>A language model that answers a second request differently from the first.\<close>

definition forgetful_llm :: "event list \<Rightarrow> llm_request \<Rightarrow> py_error + string" where
  "forgetful_llm h req =
     (if list_ex (\<lambda>e. case e of EvGenerate r \<Rightarrow> True | _ \<Rightarrow> False) h
      then Inr ''second'' else Inr ''first'')"

text \<open>Collaborators for a tenant without documents: every search returns no match.\<close>

definition no_match_world :: collab where
  "no_match_world =
     \<lparr>extract_entities = (\<lambda>q. ([], [])),
      embed_text = (\<lambda>h q. Inr []),
      query_vectors = (\<lambda>h v ns k. Inr []),
      llm_invoke = forgetful_llm,
      generate_rich_content = (\<lambda>a cs q. RichContent []),
      generate_rich_content_for_general_query = (\<lambda>q. RichContent [])\<rparr>"

definition empty_metadata :: metadata where
  "empty_metadata =
     \<lparr>md_file_name = None, md_text = None, md_chunk_type = None, md_document_type = None,
      md_section_title = None, md_page_number = None, md_word_count = None,
      md_upload_date = None, md_doc_id = None, md_file_path = None, md_entities = None,
      md_enterprise_entities = None\<rparr>"

text \<open>A chunk as ingestion stores it: file name, text and owning document.\<close>

definition chunk_of :: "string \<Rightarrow> string \<Rightarrow> string \<Rightarrow> real \<Rightarrow> vmatch" where
  "chunk_of file_name doc_id text s =
     \<lparr>mid = doc_id @ ''_0'', score = s,
      metadata = empty_metadata\<lparr>md_file_name := Some file_name, md_text := Some text,
                                md_doc_id := Some doc_id\<rparr>,
      enhanced_score = 0\<rparr>"

text \<open>Two documents of one tenant, each with one chunk in the tenant's namespace.\<close>

definition report_document :: document where
  "report_document =
     \<lparr>doc_oid = ''507f1f77bcf86cd799439011'', doc_tenant_id = ''t'', doc_file_name = ''a.txt''\<rparr>"

definition ledger_document :: document where
  "ledger_document =
     \<lparr>doc_oid = ''507f1f77bcf86cd799439012'', doc_tenant_id = ''t'', doc_file_name = ''b.txt''\<rparr>"

definition report_chunk :: vmatch where
  "report_chunk = chunk_of ''a.txt'' ''507f1f77bcf86cd799439011'' ''total revenue figures'' (9 / 10)"

definition ledger_chunk :: vmatch where
  "ledger_chunk = chunk_of ''b.txt'' ''507f1f77bcf86cd799439012'' ''Record 1 | Revenue=5'' (8 / 10)"

definition two_document_stores :: stores where
  "two_document_stores =
     \<lparr>documents = [report_document, ledger_document],
      vector_index = (\<lambda>ns. if ns = ''t'' then [report_chunk, ledger_chunk] else []),
      db_outcomes = []\<rparr>"

text \<open>A vector store that returns the first \<open>top_k\<close> vectors of the namespace.\<close>

definition first_k_rank :: "real list \<Rightarrow> vmatch list \<Rightarrow> int \<Rightarrow> vmatch list" where
  "first_k_rank query_vector ms top_k = take (nat top_k) ms"



text \<open>The estimated token cost of a chunk, and of a list of chunks.\<close>

definition est_tokens :: "vmatch \<Rightarrow> real" where
  "est_tokens m = real (word_count (get_or (md_text (metadata m)) '''')) * (13 / 10)"

definition total_est_tokens :: "vmatch list \<Rightarrow> real" where
  "total_est_tokens ms = sum_list (map est_tokens ms)"

definition two_matches :: "vmatch list" where
  "two_matches = [chunk_of ''a.txt'' ''d1'' ''total revenue figures'' (9 / 10),
                  chunk_of ''b.txt'' ''d2'' ''Record 1 | Revenue=5'' (8 / 10)]"

definition selected_a :: vmatch where
  "selected_a = (chunk_of ''a.txt'' ''d1'' ''total revenue figures'' (9 / 10))\<lparr>enhanced_score := 9 / 10\<rparr>"

definition selected_b :: vmatch where
  "selected_b = (chunk_of ''b.txt'' ''d2'' ''Record 1 | Revenue=5'' (8 / 10))\<lparr>enhanced_score := 12 / 10\<rparr>"

definition context_one :: optimized_context where
  "context_one =
     \<lparr>chunks = [selected_a], ctx_sources = [selected_a], ctx_confidence = 9 / 10,
      quality_score = 8 / 10, avg_relevance = 9 / 10, document_types = [''general'']\<rparr>"

text \<open>The chunk's text matches the data-record pattern.\<close>

definition is_record_chunk :: "vmatch \<Rightarrow> bool" where
  "is_record_chunk m = is_record_text (get_or (md_text (metadata m)) '''')"

text \<open>The best raw score among the matches of a document.\<close>

definition best_raw_score :: "vmatch list \<Rightarrow> string \<Rightarrow> real" where
  "best_raw_score matches d = max_score (filter (\<lambda>m. doc_name_of m = d) matches)"

definition three_matches :: "vmatch list" where
  "three_matches =
     [chunk_of ''a.txt'' ''d1'' ''total revenue figures'' (9 / 10),
      chunk_of ''b.txt'' ''d2'' ''Record 1 | Revenue=5'' (8 / 10),
      (chunk_of ''a.txt'' ''d1'' ''Record 2 | Revenue=7'' (6 / 10))\<lparr>mid := ''d1_1''\<rparr>]"

definition selected_a_record :: vmatch where
  "selected_a_record =
     (chunk_of ''a.txt'' ''d1'' ''Record 2 | Revenue=7'' (6 / 10))\<lparr>mid := ''d1_1'', enhanced_score := 1\<rparr>"

definition context_three :: optimized_context where
  "context_three =
     \<lparr>chunks = [selected_a_record, selected_a, selected_b],
      ctx_sources = [selected_a_record, selected_a, selected_b],
      ctx_confidence = 23 / 30, quality_score = 19 / 25, avg_relevance = 23 / 30,
      document_types = [''general'']\<rparr>"

text \<open>The retrieval breadths of the searches in a list of calls, and its counts of calls.\<close>

definition search_breadths :: "event list \<Rightarrow> int list" where
  "search_breadths evs = concat (map (\<lambda>e. case e of EvSearch t k \<Rightarrow> [k] | _ \<Rightarrow> []) evs)"

definition generation_count :: "event list \<Rightarrow> nat" where
  "generation_count evs = length (filter (\<lambda>e. case e of EvGenerate r \<Rightarrow> True | _ \<Rightarrow> False) evs)"

definition optimization_count :: "event list \<Rightarrow> nat" where
  "optimization_count evs = length (filter (\<lambda>e. case e of EvOptimize k \<Rightarrow> True | _ \<Rightarrow> False) evs)"

text \<open>Collaborators whose language model raises on every call.\<close>

definition failing_llm_no_match_world :: collab where
  "failing_llm_no_match_world =
     no_match_world\<lparr>llm_invoke := (\<lambda>h req. Inl (CollaboratorError ''llm unavailable''))\<rparr>"


text \<open>
  A language model that reports missing data on its first call and answers on the next.
\<close>

definition hesitant_llm :: "event list \<Rightarrow> llm_request \<Rightarrow> py_error + string" where
  "hesitant_llm h req =
     (if generation_count h = 0 then Inr ''The carrier data is missing.''
      else Inr ''Average delivery time: 3 days.'')"

definition retry_world :: collab where
  "retry_world =
     no_match_world\<lparr>llm_invoke := hesitant_llm, query_vectors := (\<lambda>h v ns k. Inr two_matches)\<rparr>"

text \<open>The same, with a vector store that returns no match to the search at breadth 50.\<close>

definition retry_empty_world :: collab where
  "retry_empty_world =
     no_match_world\<lparr>llm_invoke := hesitant_llm,
                     query_vectors := (\<lambda>h v ns k. if k = 50 then Inr [] else Inr two_matches)\<rparr>"




section \<open>Retrieval breadth\<close>

text \<open>
  C9. The breadth is 50 for an analytical query containing "all", "every", "total" or
  "complete" (as substrings of the lower-cased query); otherwise 40 for an analytical query
  containing "compare", "versus", "vs" or "between"; otherwise 30 for an analytical query
  containing "average", "mean", "performance" or "wise"; otherwise 20 for an analytical
  query; otherwise \<open>base_top_k\<close>. The query "what is the average delivery time by carrier"
  is analytical with breadth 30, and "hello, how are you" is not analytical and keeps
  \<open>base_top_k\<close>.
\<close>

theorem get_dynamic_top_k_tiers:
  "get_dynamic_top_k query base_top_k =
     (if is_analytical_query query
         \<and> (substr_in ''all'' (lower query) \<or> substr_in ''every'' (lower query)
            \<or> substr_in ''total'' (lower query) \<or> substr_in ''complete'' (lower query))
      then 50
      else if is_analytical_query query
         \<and> (substr_in ''compare'' (lower query) \<or> substr_in ''versus'' (lower query)
            \<or> substr_in ''vs'' (lower query) \<or> substr_in ''between'' (lower query))
      then 40
      else if is_analytical_query query
         \<and> (substr_in ''average'' (lower query) \<or> substr_in ''mean'' (lower query)
            \<or> substr_in ''performance'' (lower query) \<or> substr_in ''wise'' (lower query))
      then 30
      else if is_analytical_query query then 20
      else base_top_k)
   \<and> is_analytical_query ''what is the average delivery time by carrier''
   \<and> get_dynamic_top_k ''what is the average delivery time by carrier'' base_top_k = 30
   \<and> \<not> is_analytical_query ''hello, how are you''
   \<and> get_dynamic_top_k ''hello, how are you'' base_top_k = base_top_k"
proof -
  have tiers: "get_dynamic_top_k query base_top_k =
     (if is_analytical_query query
         \<and> (substr_in ''all'' (lower query) \<or> substr_in ''every'' (lower query)
            \<or> substr_in ''total'' (lower query) \<or> substr_in ''complete'' (lower query))
      then 50
      else if is_analytical_query query
         \<and> (substr_in ''compare'' (lower query) \<or> substr_in ''versus'' (lower query)
            \<or> substr_in ''vs'' (lower query) \<or> substr_in ''between'' (lower query))
      then 40
      else if is_analytical_query query
         \<and> (substr_in ''average'' (lower query) \<or> substr_in ''mean'' (lower query)
            \<or> substr_in ''performance'' (lower query) \<or> substr_in ''wise'' (lower query))
      then 30
      else if is_analytical_query query then 20
      else base_top_k)"
    unfolding get_dynamic_top_k_def any_in_def by (simp del: substr_in.simps)
  have a1: "is_analytical_query ''what is the average delivery time by carrier''"
    by code_simp
  have n50: "\<not> any_in [''all'', ''every'', ''total'', ''complete'']
                 (lower ''what is the average delivery time by carrier'')"
    by code_simp
  have n40: "\<not> any_in [''compare'', ''versus'', ''vs'', ''between'']
                 (lower ''what is the average delivery time by carrier'')"
    by code_simp
  have y30: "any_in [''average'', ''mean'', ''performance'', ''wise'']
               (lower ''what is the average delivery time by carrier'')"
    by code_simp
  have k1: "get_dynamic_top_k ''what is the average delivery time by carrier'' base_top_k = 30"
    unfolding get_dynamic_top_k_def using a1 n50 n40 y30 by presburger
  have a2: "\<not> is_analytical_query ''hello, how are you''"
    by code_simp
  have k2: "get_dynamic_top_k ''hello, how are you'' base_top_k = base_top_k"
    unfolding get_dynamic_top_k_def using a2 by presburger
  from tiers a1 k1 a2 k2 show ?thesis by blast
qed

theorem get_dynamic_top_k_tiers_witness:
  "get_dynamic_top_k ''Compare ALL carriers'' 8 = 50"
proof -
  have a: "is_analytical_query ''Compare ALL carriers''"
    by code_simp
  have b: "substr_in ''all'' (lower ''Compare ALL carriers'')"
    by code_simp
  from get_dynamic_top_k_tiers [of "''Compare ALL carriers''" 8] a b
  show ?thesis by presburger
qed

section \<open>The result cache\<close>

lemma dict_set_fresh: "k \<notin> fst ` set d \<Longrightarrow> dict_set d k v = d @ [(k, v)]"
  by (induction d) auto

lemma cache_all_snoc: "cache_all p (kvs @ [(k, r)]) = cache_result (cache_all p kvs) k r"
  by (simp add: cache_all_def)

lemma cache_all_max_size: "cache_max_size (cache_all p kvs) = cache_max_size p"
  by (induction kvs rule: rev_induct) (auto simp: cache_all_def cache_result_def Let_def)

lemma cache_all_below_cap:
  "query_cache p = [] \<Longrightarrow> distinct (map fst kvs) \<Longrightarrow> int (length kvs) \<le> cache_max_size p
     \<Longrightarrow> query_cache (cache_all p kvs) = kvs"
proof (induction kvs rule: rev_induct)
  case Nil
  then show ?case by (simp add: cache_all_def)
next
  case (snoc x kvs)
  obtain k r where x: "x = (k, r)" by (cases x)
  from snoc.prems have d: "distinct (map fst kvs)" and fresh: "k \<notin> fst ` set kvs"
    and len: "int (length kvs) < cache_max_size p"
    by (auto simp: x)
  have ih: "query_cache (cache_all p kvs) = kvs"
    using snoc.IH snoc.prems(1) d len by simp
  show ?case
    unfolding x cache_all_snoc
    using ih len fresh by (simp add: cache_result_def cache_all_max_size dict_set_fresh)
qed

lemma cache_all_overflow:
  assumes "1 \<le> cache_max_size p" and "query_cache p = []"
    and "distinct (map fst kvs)" and "length kvs = nat (cache_max_size p) + 1"
  shows "query_cache (cache_all p kvs) = drop (min (nat (cache_max_size p)) 50) kvs"
proof -
  obtain init x where kvs: "kvs = init @ [x]"
    using assms(4) by (cases kvs rule: rev_cases) auto
  obtain k r where x: "x = (k, r)" by (cases x)
  have len: "length init = nat (cache_max_size p)" using assms(4) kvs by simp
  have d: "distinct (map fst init)" and fresh: "k \<notin> fst ` set init"
    using assms(3) by (auto simp: kvs x)
  have c: "query_cache (cache_all p init) = init"
    using cache_all_below_cap[OF assms(2) d] len assms(1) by simp
  have fresh': "k \<notin> fst ` set (drop 50 init)"
    using fresh by (auto dest: in_set_dropD)
  have "query_cache (cache_all p kvs) = drop 50 init @ [(k, r)]"
    unfolding kvs x cache_all_snoc
    using c len assms(1) fresh' by (simp add: cache_result_def cache_all_max_size dict_set_fresh)
  also have "\<dots> = drop (min (nat (cache_max_size p)) 50) kvs"
    using len by (auto simp: kvs x min_def)
  finally show ?thesis .
qed

lemma distinct_nth_in_drop:
  assumes "distinct xs" and "i < length xs"
  shows "xs ! i \<in> set (drop m xs) \<longleftrightarrow> m \<le> i"
proof
  assume "xs ! i \<in> set (drop m xs)"
  then obtain j where j: "j < length (drop m xs)" and e: "drop m xs ! j = xs ! i"
    by (auto simp: in_set_conv_nth)
  have "xs ! (m + j) = xs ! i" using e j by simp
  moreover have "m + j < length xs" using j by simp
  ultimately have "m + j = i" using assms nth_eq_iff_index_eq by blast
  then show "m \<le> i" by simp
next
  assume "m \<le> i"
  then have "drop m xs ! (i - m) = xs ! i" and "i - m < length (drop m xs)"
    using assms(2) by auto
  then show "xs ! i \<in> set (drop m xs)" by (metis nth_mem)
qed

text \<open>
  C2, as the code has it. A cache of maximum size \<open>N \<ge> 1\<close> that starts empty and receives
  \<open>N + 1\<close> results under distinct keys evicts a batch when the last one arrives: the
  \<open>min N 50\<close> keys inserted first are no longer retrievable, and exactly the keys inserted
  after them remain, with their results.
\<close>

theorem cache_overflow_evicts_batch:
  assumes "1 \<le> cache_max_size p" and "query_cache p = []"
    and "distinct (map fst kvs)" and "length kvs = nat (cache_max_size p) + 1"
  shows "query_cache (cache_all p kvs) = drop (min (nat (cache_max_size p)) 50) kvs
         \<and> (\<forall>i < length kvs.
               retrievable (cache_all p kvs) (fst (kvs ! i))
                 \<longleftrightarrow> min (nat (cache_max_size p)) 50 \<le> i)"
proof -
  let ?m = "min (nat (cache_max_size p)) 50"
  have c: "query_cache (cache_all p kvs) = drop ?m kvs"
    using cache_all_overflow[OF assms] .
  have "retrievable (cache_all p kvs) (fst (kvs ! i)) \<longleftrightarrow> ?m \<le> i" if i: "i < length kvs" for i
  proof -
    have "retrievable (cache_all p kvs) (fst (kvs ! i))
            \<longleftrightarrow> fst (kvs ! i) \<in> fst ` set (drop ?m kvs)"
      unfolding retrievable_def c by (simp add: map_of_eq_None_iff)
    also have "\<dots> \<longleftrightarrow> map fst kvs ! i \<in> set (drop ?m (map fst kvs))"
      using i by (simp add: drop_map)
    also have "\<dots> \<longleftrightarrow> ?m \<le> i"
      using distinct_nth_in_drop[OF assms(3)] i by simp
    finally show ?thesis .
  qed
  with c show ?thesis by blast
qed

theorem cache_overflow_evicts_batch_witness:
  "1 \<le> cache_max_size small_cache \<and> query_cache small_cache = []
   \<and> distinct (map fst three_entries)
   \<and> length three_entries = nat (cache_max_size small_cache) + 1
   \<and> query_cache (cache_all small_cache three_entries) = [(''t:c'', sample_result)]"
proof -
  have h1: "1 \<le> cache_max_size small_cache" by (simp add: small_cache_def)
  have h2: "query_cache small_cache = []" by (simp add: small_cache_def)
  have h3: "distinct (map fst three_entries)" by (simp add: three_entries_def)
  have h4: "length three_entries = nat (cache_max_size small_cache) + 1"
    by (simp add: three_entries_def small_cache_def)
  have "drop (min (nat (cache_max_size small_cache)) 50) three_entries = [(''t:c'', sample_result)]"
    by (simp add: three_entries_def small_cache_def)
  with cache_overflow_evicts_batch[OF h1 h2 h3 h4] h1 h2 h3 h4 show ?thesis by simp
qed

text \<open>
  With maximum size 2, the third insertion removes both earlier keys: the second key is one
  of the two most recent keys and is not retrievable.
\<close>

theorem cache_keeps_recent_counterexample:
  "cache_max_size small_cache = 2 \<and> query_cache small_cache = []
   \<and> \<not> retrievable (cache_all small_cache three_entries) ''t:b''"
  by (simp add: small_cache_def three_entries_def cache_all_def cache_result_def retrievable_def)

section \<open>Configuration updates\<close>

text \<open>
  C3. An update carrying \<open>chunk_size = 50\<close> (below the documented minimum of 100) on the
  valid default configuration is answered with the error 400, and the configuration in
  effect afterwards has \<open>chunk_size = 50\<close> and no longer validates: the handler assigns the
  fields before it validates, and nothing restores them.
\<close>

theorem update_rejected_yet_applied:
  "validate_config default_config
   \<and> fst (update_enterprise_config default_config bad_update admin_user)
       = Inl (HTTPException 400 ''Invalid configuration values provided'')
   \<and> chunk_size (chunking (snd (update_enterprise_config default_config bad_update admin_user))) = 50
   \<and> \<not> validate_config (snd (update_enterprise_config default_config bad_update admin_user))"
  by (simp add: update_enterprise_config_def apply_update_def validate_config_def
      default_config_def bad_update_def admin_user_def)

section \<open>Caching of query results\<close>

text \<open>
  C5. On the general-knowledge path the result is returned without being cached: after a
  query whose search finds nothing the cache is still empty, and the same query issued
  again calls the collaborators again and here gets another answer.
\<close>

theorem general_knowledge_result_not_cached:
  "query_documents no_match_world small_cache [] ''hello'' ''t'' ''u'' 8 =
     (Inr \<lparr>answer = ''first'', sources = [], confidence = 8 / 10, context_quality = 8 / 10,
           response_type = ''general_knowledge'', rich_content = RichContent [],
           processing_metadata = GeneralMetadata True\<rparr>,
      small_cache,
      [EvEmbed ''hello'', EvSearch ''t'' 8, EvGenerate (GeneralPrompt False ''hello'')])
   \<and> query_cache small_cache = []
   \<and> query_documents no_match_world small_cache
        [EvEmbed ''hello'', EvSearch ''t'' 8, EvGenerate (GeneralPrompt False ''hello'')]
        ''hello'' ''t'' ''u'' 8 =
     (Inr \<lparr>answer = ''second'', sources = [], confidence = 8 / 10, context_quality = 8 / 10,
           response_type = ''general_knowledge'', rich_content = RichContent [],
           processing_metadata = GeneralMetadata True\<rparr>,
      small_cache,
      [EvEmbed ''hello'', EvSearch ''t'' 8, EvGenerate (GeneralPrompt False ''hello''),
       EvEmbed ''hello'', EvSearch ''t'' 8, EvGenerate (GeneralPrompt False ''hello'')])"
  by code_simp

section \<open>Deleting a document\<close>

lemma delete_one_absent:
  "\<not> list_ex (\<lambda>d. doc_oid d = doc_id \<and> doc_tenant_id d = tenant_id) ds
     \<Longrightarrow> delete_one ds doc_id tenant_id = ds"
  by (induction ds) auto

text \<open>What \<open>delete_one\<close> removes: the first record with the id and the tenant, nothing else.\<close>

lemma delete_one_present:
  "list_ex (\<lambda>d. doc_oid d = doc_id \<and> doc_tenant_id d = tenant_id) ds
     \<Longrightarrow> \<exists>xs d ys. ds = xs @ d # ys \<and> doc_oid d = doc_id \<and> doc_tenant_id d = tenant_id
           \<and> (\<forall>x \<in> set xs. \<not> (doc_oid x = doc_id \<and> doc_tenant_id x = tenant_id))
           \<and> delete_one ds doc_id tenant_id = xs @ ys"
proof (induction ds)
  case Nil
  then show ?case by simp
next
  case (Cons a ds)
  show ?case
  proof (cases "doc_oid a = doc_id \<and> doc_tenant_id a = tenant_id")
    case True
    then have "a # ds = [] @ a # ds \<and> doc_oid a = doc_id \<and> doc_tenant_id a = tenant_id
               \<and> (\<forall>x \<in> set []. \<not> (doc_oid x = doc_id \<and> doc_tenant_id x = tenant_id))
               \<and> delete_one (a # ds) doc_id tenant_id = [] @ ds"
      by simp
    then show ?thesis by blast
  next
    case False
    with Cons.prems have "list_ex (\<lambda>d. doc_oid d = doc_id \<and> doc_tenant_id d = tenant_id) ds"
      by auto
    from Cons.IH[OF this] obtain xs d ys
      where "ds = xs @ d # ys" "doc_oid d = doc_id" "doc_tenant_id d = tenant_id"
        "\<forall>x \<in> set xs. \<not> (doc_oid x = doc_id \<and> doc_tenant_id x = tenant_id)"
        "delete_one ds doc_id tenant_id = xs @ ys"
      by blast
    with False have "a # ds = (a # xs) @ d # ys \<and> doc_oid d = doc_id \<and> doc_tenant_id d = tenant_id
               \<and> (\<forall>x \<in> set (a # xs). \<not> (doc_oid x = doc_id \<and> doc_tenant_id x = tenant_id))
               \<and> delete_one (a # ds) doc_id tenant_id = (a # xs) @ ys"
      by auto
    then show ?thesis by blast
  qed
qed

lemma db_call_frame:
  "db_call st = (ok, st1) \<Longrightarrow> documents st1 = documents st \<and> vector_index st1 = vector_index st"
  by (auto simp: db_call_def split: list.splits)

lemma delete_document_frame:
  assumes "delete_document st doc_id tenant_id = (ok, st')"
  shows "vector_index st' = vector_index st
         \<and> (ok \<longrightarrow> documents st' = delete_one (documents st) doc_id tenant_id
                  \<and> list_ex (\<lambda>d. doc_oid d = doc_id \<and> doc_tenant_id d = tenant_id) (documents st)
                  \<and> valid_object_id doc_id)
         \<and> (\<not> ok \<longrightarrow> documents st' = documents st)"
proof -
  obtain ok1 st1 where c1: "db_call st = (ok1, st1)" by (cases "db_call st")
  obtain ok2 st2 where c2: "db_call st1 = (ok2, st2)" by (cases "db_call st1")
  note f1 = db_call_frame[OF c1] and f2 = db_call_frame[OF c2]
  show ?thesis
    using assms f1 f2 delete_one_absent[of doc_id tenant_id "documents st"]
    by (auto simp: delete_document_def get_documents_by_tenant_def document_model_delete_def
        c1 c2 split: if_splits option.splits)
qed

lemma store_world_same_index:
  "vector_index st' = vector_index st \<Longrightarrow> store_world rank st' w = store_world rank st w"
  by (simp add: store_world_def store_query_vectors_def fun_eq_iff)

text \<open>
  C10. \<open>delete_document\<close> never changes the vector store: whatever it returns, every
  namespace holds the vectors it held before, the deleted document's chunks included, so
  every vector search answered from the store returns what it returned before, and so does
  every query of the pipeline that searches it. When \<open>delete_document\<close> returns \<open>True\<close>,
  exactly one metadata record has been removed from the document database, the first with
  the given id and tenant, and every other record is kept in place; when it returns
  \<open>False\<close> the records are unchanged.
\<close>

theorem delete_document_keeps_vectors:
  assumes "delete_document st doc_id tenant_id = (ok, st')"
  shows "vector_index st' = vector_index st
         \<and> (\<forall>m ns. m \<in> set (vector_index st ns) \<longrightarrow> m \<in> set (vector_index st' ns))
         \<and> (\<forall>rank v ns k. store_query_vectors rank st' v ns k = store_query_vectors rank st v ns k)
         \<and> (\<forall>rank w p h query tenant user_id top_k.
               query_documents (store_world rank st' w) p h query tenant user_id top_k
               = query_documents (store_world rank st w) p h query tenant user_id top_k)
         \<and> (ok \<longrightarrow>
              (\<exists>xs d ys. documents st = xs @ d # ys
                  \<and> doc_oid d = doc_id \<and> doc_tenant_id d = tenant_id
                  \<and> (\<forall>x \<in> set xs. \<not> (doc_oid x = doc_id \<and> doc_tenant_id x = tenant_id))
                  \<and> documents st' = xs @ ys))
         \<and> (\<not> ok \<longrightarrow> documents st' = documents st)"
proof -
  note f = delete_document_frame[OF assms]
  from f have v: "vector_index st' = vector_index st" by simp
  have rec: "\<exists>xs d ys. documents st = xs @ d # ys
                  \<and> doc_oid d = doc_id \<and> doc_tenant_id d = tenant_id
                  \<and> (\<forall>x \<in> set xs. \<not> (doc_oid x = doc_id \<and> doc_tenant_id x = tenant_id))
                  \<and> documents st' = xs @ ys" if ok
  proof -
    from f that have p: "list_ex (\<lambda>d. doc_oid d = doc_id \<and> doc_tenant_id d = tenant_id) (documents st)"
      and d: "documents st' = delete_one (documents st) doc_id tenant_id"
      by simp_all
    from delete_one_present[OF p] d show ?thesis by auto
  qed
  have unchanged: "documents st' = documents st" if "\<not> ok" using f that by simp
  show ?thesis
    using v rec unchanged
    by (simp add: store_query_vectors_def store_world_same_index[OF v])
qed

theorem delete_document_keeps_vectors_witness:
  "delete_document two_document_stores ''507f1f77bcf86cd799439011'' ''t''
     = (True, two_document_stores\<lparr>documents := [ledger_document]\<rparr>)
   \<and> vector_index (two_document_stores\<lparr>documents := [ledger_document]\<rparr>) ''t''
       = [report_chunk, ledger_chunk]
   \<and> map_sum id (map src_file_id) (map_sum id sources
        (fst (query_documents
                (store_world first_k_rank (two_document_stores\<lparr>documents := [ledger_document]\<rparr>)
                   no_match_world)
                small_cache [] ''total revenue'' ''t'' ''u'' 8)))
       = Inr [Some ''507f1f77bcf86cd799439011'', Some ''507f1f77bcf86cd799439012'']"
proof -
  have valid: "valid_object_id ''507f1f77bcf86cd799439011''"
    by code_simp
  have d: "delete_document two_document_stores ''507f1f77bcf86cd799439011'' ''t''
             = (True, two_document_stores\<lparr>documents := [ledger_document]\<rparr>)"
    by (simp add: delete_document_def get_documents_by_tenant_def document_model_delete_def
        db_call_def valid two_document_stores_def report_document_def ledger_document_def)
  have v: "vector_index (two_document_stores\<lparr>documents := [ledger_document]\<rparr>) ''t''
             = [report_chunk, ledger_chunk]"
    by (simp add: two_document_stores_def)
  have q: "map_sum id (map src_file_id) (map_sum id sources
        (fst (query_documents
                (store_world first_k_rank (two_document_stores\<lparr>documents := [ledger_document]\<rparr>)
                   no_match_world)
                small_cache [] ''total revenue'' ''t'' ''u'' 8)))
       = Inr [Some ''507f1f77bcf86cd799439011'', Some ''507f1f77bcf86cd799439012'']"
    by code_simp
  from delete_document_keeps_vectors[OF d] d v q show ?thesis by blast
qed

lemma delete_document_invalid_id:
  "\<not> valid_object_id doc_id \<Longrightarrow> fst (delete_document st doc_id tenant_id) = False"
  by (auto simp: delete_document_def get_documents_by_tenant_def document_model_delete_def
      split: prod.splits sum.splits option.splits)

section \<open>Bounds of the selected context\<close>

lemma chunk_tokens_est: "chunk_tokens m = Inr ct \<Longrightarrow> ct = est_tokens m"
  by (auto simp: chunk_tokens_def est_tokens_def get_or_def split: option.splits)

lemma est_tokens_nonneg: "0 \<le> est_tokens m"
  by (simp add: est_tokens_def)

lemma total_est_tokens_take: "total_est_tokens (take n ms) \<le> total_est_tokens ms"
proof -
  have "total_est_tokens ms = total_est_tokens (take n ms) + total_est_tokens (drop n ms)"
    unfolding total_est_tokens_def by (metis append_take_drop_id map_append sum_list_append)
  moreover have "0 \<le> total_est_tokens (drop n ms)"
    unfolding total_est_tokens_def by (rule sum_list_nonneg) (auto simp: est_tokens_nonneg)
  ultimately show ?thesis by simp
qed

text \<open>
  The loop invariant: the running total is the cost of the chunks selected so far, it is
  within the budget, and on entry fewer than \<open>top_k\<close> chunks are selected.
\<close>

lemma select_from_doc_bounds:
  "select_from_doc mx k ms (sel, tot) = Inr (sel', tot') \<Longrightarrow> tot = total_est_tokens sel
     \<Longrightarrow> tot \<le> mx \<Longrightarrow> int (length sel) < k
     \<Longrightarrow> tot' = total_est_tokens sel' \<and> tot' \<le> mx \<and> int (length sel') \<le> k"
proof (induction ms arbitrary: sel tot)
  case Nil
  then show ?case by auto
next
  case (Cons m ms)
  from Cons.prems(1) obtain ct where ct: "chunk_tokens m = Inr ct"
    by (cases "chunk_tokens m") auto
  have cte: "ct = est_tokens m" using ct by (rule chunk_tokens_est)
  show ?case
  proof (cases "tot + ct > mx")
    case True
    with Cons.prems ct show ?thesis by auto
  next
    case fits: False
    show ?thesis
    proof (cases "int (length (sel @ [m])) \<ge> k")
      case True
      with Cons.prems ct fits cte show ?thesis
        by (auto simp: total_est_tokens_def Let_def)
    next
      case False
      with Cons.prems(1) ct fits
      have step: "select_from_doc mx k ms (sel @ [m], tot + ct) = Inr (sel', tot')"
        by (simp add: Let_def)
      show ?thesis
        using Cons.IH[OF step] Cons.prems(2) fits False cte
        by (simp add: total_est_tokens_def)
    qed
  qed
qed

lemma select_from_docs_bounds:
  "select_from_docs mx k q docs (sel, tot) = Inr (sel', tot') \<Longrightarrow> tot = total_est_tokens sel
     \<Longrightarrow> tot \<le> mx \<Longrightarrow> int (length sel) < k
     \<Longrightarrow> tot' = total_est_tokens sel' \<and> tot' \<le> mx \<and> int (length sel') \<le> k"
proof (induction docs arbitrary: sel tot)
  case Nil
  then show ?case by auto
next
  case (Cons g docs)
  obtain name ms where g: "g = (name, ms)" by (cases g)
  from Cons.prems(1) obtain sel1 tot1
    where inner: "select_from_doc mx k (prioritize q ms) (sel, tot) = Inr (sel1, tot1)"
    unfolding g by (cases "select_from_doc mx k (prioritize q ms) (sel, tot)") auto
  note b1 = select_from_doc_bounds[OF inner Cons.prems(2,3,4)]
  show ?case
  proof (cases "int (length sel1) \<ge> k")
    case True
    with Cons.prems(1) inner b1 show ?thesis by (auto simp: g)
  next
    case False
    with Cons.prems(1) inner
    have rest: "select_from_docs mx k q docs (sel1, tot1) = Inr (sel', tot')"
      by (simp add: g)
    show ?thesis using Cons.IH[OF rest] b1 False by simp
  qed
qed

text \<open>
  For \<open>top_k \<ge> 1\<close> and a non-negative token budget the bounds hold. Whenever the
  optimization returns a context, the estimated token cost of its chunks (word count times
  1.3, summed) is at most \<open>max_context_tokens\<close> and it has at most \<open>top_k\<close> chunks; moreover
  each chunk was accepted with fewer than \<open>top_k\<close> chunks before it and with the running
  total, its own cost included, within the budget.
\<close>

theorem optimized_context_within_bounds:
  assumes "optimize_context_selection w p matches query top_k = Inr ctx"
    and "1 \<le> top_k" and "0 \<le> max_context_tokens p"
  shows "total_est_tokens (chunks ctx) \<le> real_of_int (max_context_tokens p)
         \<and> int (length (chunks ctx)) \<le> top_k
         \<and> (\<forall>i < length (chunks ctx).
               int i < top_k
               \<and> total_est_tokens (take (Suc i) (chunks ctx)) \<le> real_of_int (max_context_tokens p))"
proof -
  let ?mx = "real_of_int (max_context_tokens p)"
  from assms(1) obtain sel tot
    where s: "select_from_docs ?mx top_k query (sorted_docs_of w p matches query) ([], 0) = Inr (sel, tot)"
      and c: "chunks ctx = sel"
    unfolding optimize_context_selection_def
    by (auto simp: Let_def split: sum.splits if_splits)
  have b: "tot = total_est_tokens sel \<and> tot \<le> ?mx \<and> int (length sel) \<le> top_k"
    using select_from_docs_bounds[OF s] assms(2,3) by (simp add: total_est_tokens_def)
  have "total_est_tokens (take (Suc i) sel) \<le> ?mx" for i
    using total_est_tokens_take[of "Suc i" sel] b by simp
  with b c show ?thesis by auto
qed

theorem optimized_context_within_bounds_witness:
  "optimize_context_selection no_match_world small_cache two_matches ''total revenue'' 1
     = Inr context_one
   \<and> (1::int) \<le> 1 \<and> 0 \<le> max_context_tokens small_cache
   \<and> total_est_tokens (chunks context_one) \<le> real_of_int (max_context_tokens small_cache)
   \<and> int (length (chunks context_one)) \<le> 1"
proof -
  have h1: "optimize_context_selection no_match_world small_cache two_matches ''total revenue'' 1
              = Inr context_one"
    by code_simp
  have h2: "(1::int) \<le> 1" by simp
  have h3: "0 \<le> max_context_tokens small_cache" by (simp add: small_cache_def)
  from optimized_context_within_bounds[OF h1 h2 h3] h1 h2 h3 show ?thesis by blast
qed

text \<open>
  C1. The count bound fails for \<open>top_k = 0\<close>: the loop appends the first chunk that fits
  the budget and compares the number of selected chunks with \<open>top_k\<close> only afterwards, so
  the returned context has one chunk where the bound allows none.
\<close>

theorem top_k_zero_selects_one_chunk:
  "optimize_context_selection no_match_world small_cache two_matches ''total revenue'' 0
     = Inr context_one
   \<and> length (chunks context_one) = 1
   \<and> \<not> int (length (chunks context_one)) \<le> 0"
proof -
  have "optimize_context_selection no_match_world small_cache two_matches ''total revenue'' 0
          = Inr context_one"
    by code_simp
  then show ?thesis by (simp add: context_one_def)
qed

section \<open>Order of the selected context\<close>

lemma max_score_Max: "ms \<noteq> [] \<Longrightarrow> max_score ms = Max (score ` set ms)"
proof (induction ms rule: max_score.induct)
  case 1
  then show ?case by simp
next
  case (2 m)
  then show ?case by simp
next
  case (3 m v va)
  have "Max (score ` set (m # v # va)) = max (score m) (Max (score ` set (v # va)))"
    by (subst Max_insert[symmetric]) auto
  with 3 show ?case by simp
qed

lemma select_from_doc_take:
  "select_from_doc mx k ms (sel, tot) = Inr (sel', tot') \<Longrightarrow> \<exists>n. sel' = sel @ take n ms"
proof (induction ms arbitrary: sel tot)
  case Nil
  then show ?case by auto
next
  case (Cons m ms)
  from Cons.prems obtain ct where ct: "chunk_tokens m = Inr ct"
    by (cases "chunk_tokens m") auto
  show ?case
  proof (cases "tot + ct > mx")
    case True
    with Cons.prems ct have "sel' = sel @ take 0 (m # ms)" by auto
    then show ?thesis by blast
  next
    case fits: False
    show ?thesis
    proof (cases "int (length (sel @ [m])) \<ge> k")
      case True
      with Cons.prems ct fits have "sel' = sel @ take 1 (m # ms)"
        by (auto simp: Let_def)
      then show ?thesis by blast
    next
      case False
      with Cons.prems ct fits
      have "select_from_doc mx k ms (sel @ [m], tot + ct) = Inr (sel', tot')"
        by (simp add: Let_def)
      from Cons.IH[OF this] obtain n where "sel' = (sel @ [m]) @ take n ms" by blast
      then have "sel' = sel @ take (Suc n) (m # ms)" by simp
      then show ?thesis by blast
    qed
  qed
qed

lemma sorted_wrt_take_mid:
  "sorted_wrt P (xs @ ys @ zs) \<Longrightarrow> sorted_wrt P (xs @ take n ys @ zs)"
  by (auto simp: sorted_wrt_append dest: in_set_takeD)

lemma select_from_docs_sorted:
  "select_from_docs mx k q docs (sel, tot) = Inr (sel', tot')
     \<Longrightarrow> sorted_wrt P (sel @ concat (map (\<lambda>g. prioritize q (snd g)) docs))
     \<Longrightarrow> sorted_wrt P sel'"
proof (induction docs arbitrary: sel tot)
  case Nil
  then show ?case by auto
next
  case (Cons g docs)
  obtain name ms where g: "g = (name, ms)" by (cases g)
  let ?rest = "concat (map (\<lambda>g. prioritize q (snd g)) docs)"
  from Cons.prems(1) obtain sel1 tot1
    where inner: "select_from_doc mx k (prioritize q ms) (sel, tot) = Inr (sel1, tot1)"
    unfolding g by (cases "select_from_doc mx k (prioritize q ms) (sel, tot)") auto
  from select_from_doc_take[OF inner] obtain n where n: "sel1 = sel @ take n (prioritize q ms)"
    by blast
  from Cons.prems(2) have "sorted_wrt P (sel @ prioritize q ms @ ?rest)" by (simp add: g)
  then have s1: "sorted_wrt P (sel1 @ ?rest)"
    unfolding n using sorted_wrt_take_mid[of P sel "prioritize q ms" ?rest n] by simp
  show ?case
  proof (cases "int (length sel1) \<ge> k")
    case True
    with Cons.prems(1) inner have "sel' = sel1" by (auto simp: g)
    with s1 show ?thesis by (simp add: sorted_wrt_append)
  next
    case False
    with Cons.prems(1) inner
    have "select_from_docs mx k q docs (sel1, tot1) = Inr (sel', tot')" by (simp add: g)
    from Cons.IH[OF this s1] show ?thesis .
  qed
qed

lemma sorted_wrt_concat_map:
  "sorted_wrt P (concat (map f gs)) \<longleftrightarrow>
     (\<forall>g \<in> set gs. sorted_wrt P (f g))
     \<and> sorted_wrt (\<lambda>g g'. \<forall>x \<in> set (f g). \<forall>y \<in> set (f g'). P x y) gs"
  by (induction gs) (auto simp: sorted_wrt_append)

lemma sorted_wrt_all_related:
  "(\<And>x y. x \<in> set xs \<Longrightarrow> y \<in> set xs \<Longrightarrow> P x y) \<Longrightarrow> sorted_wrt P xs"
  by (induction xs) auto

lemma distinct_sorted_wrt_neq: "distinct (map f xs) \<Longrightarrow> sorted_wrt (\<lambda>a b. f a \<noteq> f b) xs"
  by (induction xs) auto

lemma set_sort_desc: "set (sort_desc f xs) = set xs"
  by (simp add: sort_desc_def)

lemma sorted_sort_desc: "sorted_wrt (\<lambda>a b. f a \<ge> f b) (sort_desc f xs)"
proof -
  have "sorted (map (\<lambda>x. - f x) (sort_key (\<lambda>x. - f x) xs))" by (rule sorted_sort_key)
  then show ?thesis by (simp add: sort_desc_def sorted_map)
qed

lemma distinct_map_insort_key:
  "distinct (map g (insort_key f x xs)) \<longleftrightarrow> g x \<notin> g ` set xs \<and> distinct (map g xs)"
  by (induction xs) (auto simp: set_insort_key)

lemma distinct_map_sort_desc: "distinct (map g (sort_desc f xs)) = distinct (map g xs)"
  unfolding sort_desc_def by (induction xs) (auto simp: distinct_map_insort_key)

lemma set_prioritize: "set (prioritize q ms) = set ms"
  by (auto simp: prioritize_def Let_def set_sort_desc)

lemma map_fst_group_append_old:
  "k \<in> fst ` set g \<Longrightarrow> map fst (group_append g k m) = map fst g"
  by (induction g) force+

lemma map_fst_group_append_new:
  "k \<notin> fst ` set g \<Longrightarrow> map fst (group_append g k m) = map fst g @ [k]"
  by (induction g) auto

lemma map_of_group_append:
  "map_of (group_append g k m) =
     (map_of g)(k \<mapsto> (case map_of g k of None \<Rightarrow> [m] | Some xs \<Rightarrow> xs @ [m]))"
  by (induction g) (auto simp: fun_eq_iff)

lemma group_by_doc_snoc:
  "group_by_doc (ms @ [m]) = group_append (group_by_doc ms) (doc_name_of m) m"
  by (simp add: group_by_doc_def)

lemma group_by_doc_keys:
  "distinct (map fst (group_by_doc ms)) \<and> set (map fst (group_by_doc ms)) = doc_name_of ` set ms"
proof (induction ms rule: rev_induct)
  case Nil
  then show ?case by (simp add: group_by_doc_def)
next
  case (snoc m ms)
  show ?case
  proof (cases "doc_name_of m \<in> fst ` set (group_by_doc ms)")
    case True
    have "map fst (group_by_doc (ms @ [m])) = map fst (group_by_doc ms)"
      unfolding group_by_doc_snoc using True by (rule map_fst_group_append_old)
    moreover have "doc_name_of m \<in> doc_name_of ` set ms" using True snoc by simp
    ultimately show ?thesis using snoc by auto
  next
    case False
    have "map fst (group_by_doc (ms @ [m])) = map fst (group_by_doc ms) @ [doc_name_of m]"
      unfolding group_by_doc_snoc using False by (rule map_fst_group_append_new)
    then show ?thesis using snoc False by auto
  qed
qed

lemma group_by_doc_lookup:
  "map_of (group_by_doc ms) k =
     (if k \<in> doc_name_of ` set ms then Some (filter (\<lambda>m. doc_name_of m = k) ms) else None)"
proof (induction ms rule: rev_induct)
  case Nil
  then show ?case by (simp add: group_by_doc_def)
next
  case (snoc m ms)
  show ?case
  proof (cases "k = doc_name_of m")
    case False
    then show ?thesis
      unfolding group_by_doc_snoc map_of_group_append using snoc by auto
  next
    case True
    show ?thesis
    proof (cases "k \<in> doc_name_of ` set ms")
      case True
      with snoc \<open>k = doc_name_of m\<close> show ?thesis
        unfolding group_by_doc_snoc map_of_group_append by simp
    next
      case False
      then have "filter (\<lambda>m. doc_name_of m = k) ms = []"
        by (auto simp: filter_empty_conv)
      with snoc False \<open>k = doc_name_of m\<close> show ?thesis
        unfolding group_by_doc_snoc map_of_group_append by simp
    qed
  qed
qed

lemma group_by_doc_member:
  assumes "(k, xs) \<in> set (group_by_doc ms)"
  shows "xs = filter (\<lambda>m. doc_name_of m = k) ms \<and> xs \<noteq> []"
proof -
  have "map_of (group_by_doc ms) k = Some xs"
    using assms group_by_doc_keys[of ms] by simp
  then have k: "k \<in> doc_name_of ` set ms" and xs: "xs = filter (\<lambda>m. doc_name_of m = k) ms"
    by (auto simp: group_by_doc_lookup split: if_splits)
  from k have "filter (\<lambda>m. doc_name_of m = k) ms \<noteq> []"
    by (auto simp: filter_empty_conv)
  with xs show ?thesis by simp
qed

lemma enhance_matches_image:
  "\<exists>e. enhance_matches w q ms = map (\<lambda>m. m\<lparr>enhanced_score := e m\<rparr>) ms"
  unfolding enhance_matches_def Let_def by (rule exI) (rule refl)

lemma Max_relevant:
  fixes T :: "real set"
  assumes "finite T" and "S \<subseteq> T" and "S \<noteq> {}" and "\<And>t. t \<in> T \<Longrightarrow> r \<le> t \<Longrightarrow> t \<in> S"
    and "\<And>s. s \<in> S \<Longrightarrow> r \<le> s"
  shows "Max S = Max T"
proof -
  have fS: "finite S" using assms(1,2) by (rule rev_finite_subset)
  have T: "T \<noteq> {}" using assms(2,3) by auto
  have "Max S \<le> Max T" by (rule Max_mono) (use assms in auto)
  moreover have "Max T \<le> Max S"
  proof -
    have "Max S \<in> S" using fS assms(3) by (rule Max_in)
    then have "r \<le> Max S" by (rule assms(5))
    with \<open>Max S \<le> Max T\<close> have "r \<le> Max T" by simp
    moreover have "Max T \<in> T" using assms(1) T by (rule Max_in)
    ultimately have "Max T \<in> S" using assms(4) by blast
    then show ?thesis using fS by simp
  qed
  ultimately show ?thesis by simp
qed

lemma sorted_docs_group:
  assumes "g \<in> set (sorted_docs_of w p matches q)"
  shows "(\<forall>x \<in> set (snd g). doc_name_of x = fst g)
         \<and> max_score (snd g) = best_raw_score matches (fst g)"
proof -
  let ?R = "filter (\<lambda>m. score m \<ge> min_context_relevance p) matches"
  obtain e where e: "enhance_matches w q ?R = map (\<lambda>m. m\<lparr>enhanced_score := e m\<rparr>) ?R"
    using enhance_matches_image by blast
  let ?E = "sort_desc enhanced_score (enhance_matches w q ?R)"
  obtain k xs where g: "g = (k, xs)" by (cases g)
  have "(k, xs) \<in> set (group_by_doc ?E)"
    using assms unfolding sorted_docs_of_def Let_def g by (simp add: set_sort_desc)
  from group_by_doc_member[OF this]
  have xs: "xs = filter (\<lambda>m. doc_name_of m = k) ?E" and ne: "xs \<noteq> []" by auto
  have names: "\<forall>x \<in> set xs. doc_name_of x = k" using xs by auto
  have setE: "set ?E = (\<lambda>m. m\<lparr>enhanced_score := e m\<rparr>) ` set ?R"
    by (simp add: set_sort_desc e)
  let ?S = "score ` {m \<in> set ?R. doc_name_of m = k}"
  let ?T = "score ` {m \<in> set matches. doc_name_of m = k}"
  have S: "score ` set xs = ?S"
    unfolding xs set_filter setE by (force simp: doc_name_of_def image_iff)
  have "score ` set xs \<noteq> {}" using ne by simp
  then have Sne: "?S \<noteq> {}" unfolding S .
  have "Max ?S = Max ?T"
    by (rule Max_relevant[where r = "min_context_relevance p"]) (use Sne in auto)
  moreover have "max_score xs = Max ?S" using max_score_Max[OF ne] S by simp
  moreover have "filter (\<lambda>m. doc_name_of m = k) matches \<noteq> []"
    using Sne by (auto simp: filter_empty_conv)
  then have "best_raw_score matches k = Max ?T"
    unfolding best_raw_score_def by (simp add: max_score_Max)
  ultimately show ?thesis using names by (simp add: g)
qed

lemma sorted_docs_distinct: "distinct (map fst (sorted_docs_of w p matches q))"
  unfolding sorted_docs_of_def Let_def
  using group_by_doc_keys by (simp add: distinct_map_sort_desc)

lemma sorted_docs_by_best:
  "sorted_wrt (\<lambda>g g'. max_score (snd g) \<ge> max_score (snd g')) (sorted_docs_of w p matches q)"
  unfolding sorted_docs_of_def Let_def by (rule sorted_sort_desc)

lemma flat_sorted_by_best:
  "sorted_wrt (\<lambda>a b. best_raw_score matches (doc_name_of a) \<ge> best_raw_score matches (doc_name_of b))
     (concat (map (\<lambda>g. prioritize q (snd g)) (sorted_docs_of w p matches q)))"
  (is "sorted_wrt ?P (concat (map ?f ?G))")
proof -
  have within: "sorted_wrt ?P (?f g)" if "g \<in> set ?G" for g
  proof (rule sorted_wrt_all_related)
    fix x y assume "x \<in> set (?f g)" "y \<in> set (?f g)"
    then have "doc_name_of x = fst g" "doc_name_of y = fst g"
      using sorted_docs_group[OF that] by (auto simp: set_prioritize)
    then show "?P x y" by simp
  qed
  have across: "sorted_wrt (\<lambda>g g'. \<forall>x \<in> set (?f g). \<forall>y \<in> set (?f g'). ?P x y) ?G"
  proof (rule sorted_wrt_mono_rel[OF _ sorted_docs_by_best])
    fix g g' assume g: "g \<in> set ?G" and g': "g' \<in> set ?G"
      and le: "max_score (snd g') \<le> max_score (snd g)"
    show "\<forall>x \<in> set (?f g). \<forall>y \<in> set (?f g'). ?P x y"
      using sorted_docs_group[OF g] sorted_docs_group[OF g'] le
      by (auto simp: set_prioritize)
  qed
  from within across show ?thesis by (simp add: sorted_wrt_concat_map)
qed

lemma prioritize_records_first:
  assumes "is_analytical_query q"
  shows "sorted_wrt (\<lambda>a b. \<not> (\<not> is_record_chunk a \<and> is_record_chunk b)) (prioritize q ms)"
  using assms
  by (auto simp: prioritize_def Let_def sorted_wrt_append set_sort_desc is_record_chunk_def
      intro!: sorted_wrt_all_related)

lemma prioritize_groups_sorted:
  "sorted_wrt (\<lambda>a b. is_record_chunk a = is_record_chunk b \<longrightarrow> enhanced_score a \<ge> enhanced_score b)
     (prioritize q ms)"
proof (cases "is_analytical_query q")
  case True
  have s: "sorted_wrt (\<lambda>a b. is_record_chunk a = is_record_chunk b \<longrightarrow> enhanced_score a \<ge> enhanced_score b)
             (sort_desc enhanced_score xs)" for xs
    by (rule sorted_wrt_mono_rel[OF _ sorted_sort_desc]) simp
  show ?thesis
    using True s
    by (auto simp: prioritize_def Let_def sorted_wrt_append set_sort_desc is_record_chunk_def)
next
  case False
  then show ?thesis
    unfolding prioritize_def
    by (auto intro: sorted_wrt_mono_rel[OF _ sorted_sort_desc])
qed

lemma flat_sorted_within_doc:
  assumes "\<And>ms. sorted_wrt R (prioritize q ms)"
  shows "sorted_wrt (\<lambda>a b. doc_name_of a = doc_name_of b \<longrightarrow> R a b)
     (concat (map (\<lambda>g. prioritize q (snd g)) (sorted_docs_of w p matches q)))"
  (is "sorted_wrt ?P (concat (map ?f ?G))")
proof -
  have within: "sorted_wrt ?P (?f g)" for g
    by (rule sorted_wrt_mono_rel[OF _ assms]) simp
  have "sorted_wrt (\<lambda>g g'. fst g \<noteq> fst g') ?G"
    using sorted_docs_distinct by (rule distinct_sorted_wrt_neq)
  then have across: "sorted_wrt (\<lambda>g g'. \<forall>x \<in> set (?f g). \<forall>y \<in> set (?f g'). ?P x y) ?G"
  proof (rule sorted_wrt_mono_rel[rotated])
    fix g g' assume g: "g \<in> set ?G" and g': "g' \<in> set ?G" and ne: "fst g \<noteq> fst g'"
    show "\<forall>x \<in> set (?f g). \<forall>y \<in> set (?f g'). ?P x y"
      using sorted_docs_group[OF g] sorted_docs_group[OF g'] ne
      by (auto simp: set_prioritize)
  qed
  from within across show ?thesis by (simp add: sorted_wrt_concat_map)
qed


text \<open>
  C8. In a context returned by the optimization, the chunks appear by document in
  descending order of the document's best raw match score. For an analytical query, among
  the chunks of one document no chunk matching the data-record pattern comes after a chunk
  that does not match it, and chunks of one document that are both records or both
  non-records are in descending order of enhanced score.
\<close>

theorem optimized_context_order:
  assumes "optimize_context_selection w p matches query top_k = Inr ctx"
  shows "sorted_wrt (\<lambda>a b. best_raw_score matches (doc_name_of a)
                            \<ge> best_raw_score matches (doc_name_of b)) (chunks ctx)
         \<and> (is_analytical_query query \<longrightarrow>
              sorted_wrt (\<lambda>a b. doc_name_of a = doc_name_of b
                                 \<longrightarrow> \<not> (\<not> is_record_chunk a \<and> is_record_chunk b)) (chunks ctx)
              \<and> sorted_wrt (\<lambda>a b. doc_name_of a = doc_name_of b
                                   \<longrightarrow> (is_record_chunk a = is_record_chunk b
                                        \<longrightarrow> enhanced_score a \<ge> enhanced_score b)) (chunks ctx))"
proof -
  from assms obtain sel tot
    where s: "select_from_docs (real_of_int (max_context_tokens p)) top_k query
                (sorted_docs_of w p matches query) ([], 0) = Inr (sel, tot)"
      and c: "chunks ctx = sel"
    unfolding optimize_context_selection_def
    by (auto simp: Let_def split: sum.splits if_splits)
  have lift: "sorted_wrt P sel"
    if "sorted_wrt P (concat (map (\<lambda>g. prioritize query (snd g)) (sorted_docs_of w p matches query)))"
    for P
    using select_from_docs_sorted[OF s, of P] that by simp
  have 1: "sorted_wrt (\<lambda>a b. best_raw_score matches (doc_name_of a)
                             \<ge> best_raw_score matches (doc_name_of b)) sel"
    by (rule lift) (rule flat_sorted_by_best)
  have 2: "sorted_wrt (\<lambda>a b. doc_name_of a = doc_name_of b
                             \<longrightarrow> \<not> (\<not> is_record_chunk a \<and> is_record_chunk b)) sel"
    if "is_analytical_query query"
    by (rule lift, rule flat_sorted_within_doc) (rule prioritize_records_first[OF that])
  have 3: "sorted_wrt (\<lambda>a b. doc_name_of a = doc_name_of b
                             \<longrightarrow> (is_record_chunk a = is_record_chunk b
                                  \<longrightarrow> enhanced_score a \<ge> enhanced_score b)) sel"
    by (rule lift, rule flat_sorted_within_doc) (rule prioritize_groups_sorted)
  from 1 2 3 c show ?thesis by simp
qed

theorem optimized_context_order_witness:
  "optimize_context_selection no_match_world small_cache three_matches ''total revenue'' 3
     = Inr context_three
   \<and> is_analytical_query ''total revenue''
   \<and> map mid (chunks context_three) = [''d1_1'', ''d1_0'', ''d2_0'']
   \<and> sorted_wrt (\<lambda>a b. best_raw_score three_matches (doc_name_of a)
                        \<ge> best_raw_score three_matches (doc_name_of b)) (chunks context_three)
   \<and> sorted_wrt (\<lambda>a b. doc_name_of a = doc_name_of b
                        \<longrightarrow> \<not> (\<not> is_record_chunk a \<and> is_record_chunk b)) (chunks context_three)"
proof -
  have h1: "optimize_context_selection no_match_world small_cache three_matches ''total revenue'' 3
              = Inr context_three"
    by code_simp
  have h2: "is_analytical_query ''total revenue''"
    by code_simp
  have h3: "map mid (chunks context_three) = [''d1_1'', ''d1_0'', ''d2_0'']"
    by code_simp
  from optimized_context_order[OF h1] h1 h2 h3 show ?thesis by blast
qed

section \<open>Generation, the quality gate and the retry\<close>

lemma chunk_tokens_text: "chunk_tokens m = Inr ct \<Longrightarrow> md_text (metadata m) \<noteq> None"
  by (cases "md_text (metadata m)") (simp_all add: chunk_tokens_def)

lemma select_from_doc_text:
  "select_from_doc mx k ms (sel, tot) = Inr (sel', tot')
     \<Longrightarrow> list_all (\<lambda>c. md_text (metadata c) \<noteq> None) sel
     \<Longrightarrow> list_all (\<lambda>c. md_text (metadata c) \<noteq> None) sel'"
proof (induction ms arbitrary: sel tot)
  case Nil
  then show ?case by simp
next
  case (Cons m ms)
  from Cons.prems(1) obtain ct where ct: "chunk_tokens m = Inr ct"
    by (cases "chunk_tokens m") simp_all
  have tx: "md_text (metadata m) \<noteq> None" using ct by (rule chunk_tokens_text)
  show ?case
  proof (cases "tot + ct > mx")
    case True
    with Cons.prems(1) ct have "sel' = sel" by simp
    with Cons.prems(2) show ?thesis by simp
  next
    case fits: False
    show ?thesis
    proof (cases "int (length (sel @ [m])) \<ge> k")
      case True
      with Cons.prems(1) ct fits have "sel' = sel @ [m]" by (simp add: Let_def)
      with Cons.prems(2) tx show ?thesis by simp
    next
      case False
      with Cons.prems(1) ct fits
      have step: "select_from_doc mx k ms (sel @ [m], tot + ct) = Inr (sel', tot')"
        by (simp add: Let_def)
      show ?thesis using Cons.IH[OF step] Cons.prems(2) tx by simp
    qed
  qed
qed

lemma select_from_docs_text:
  "select_from_docs mx k q docs (sel, tot) = Inr (sel', tot')
     \<Longrightarrow> list_all (\<lambda>c. md_text (metadata c) \<noteq> None) sel
     \<Longrightarrow> list_all (\<lambda>c. md_text (metadata c) \<noteq> None) sel'"
proof (induction docs arbitrary: sel tot)
  case Nil
  then show ?case by simp
next
  case (Cons g docs)
  obtain name ms where g: "g = (name, ms)" by (cases g)
  from Cons.prems(1) obtain sel1 tot1
    where inner: "select_from_doc mx k (prioritize q ms) (sel, tot) = Inr (sel1, tot1)"
    unfolding g by (cases "select_from_doc mx k (prioritize q ms) (sel, tot)") auto
  note t1 = select_from_doc_text[OF inner Cons.prems(2)]
  show ?case
  proof (cases "int (length sel1) \<ge> k")
    case True
    with Cons.prems(1) inner have "sel' = sel1" by (simp add: g)
    with t1 show ?thesis by simp
  next
    case False
    with Cons.prems(1) inner
    have rest: "select_from_docs mx k q docs (sel1, tot1) = Inr (sel', tot')"
      by (simp add: g)
    show ?thesis using Cons.IH[OF rest t1] .
  qed
qed

lemma optimize_selected:
  assumes "optimize_context_selection w p matches query top_k = Inr ctx"
  shows "\<exists>tot. select_from_docs (real_of_int (max_context_tokens p)) top_k query
                (sorted_docs_of w p matches query) ([], 0) = Inr (chunks ctx, tot)"
proof (cases "select_from_docs (real_of_int (max_context_tokens p)) top_k query
                (sorted_docs_of w p matches query) ([], 0)")
  case (Inl e)
  with assms show ?thesis by (simp add: optimize_context_selection_def)
next
  case (Inr st)
  obtain sel tot where st: "st = (sel, tot)" by (cases st)
  show ?thesis
  proof (cases "sel = []")
    case True
    with assms Inr st have "chunks ctx = []"
      by (auto simp: optimize_context_selection_def)
    with Inr st True show ?thesis by simp
  next
    case False
    with assms Inr st have "chunks ctx = sel"
      by (auto simp: optimize_context_selection_def Let_def)
    with Inr st show ?thesis by simp
  qed
qed

lemma optimize_chunks_have_text:
  assumes "optimize_context_selection w p matches query top_k = Inr ctx"
  shows "\<not> list_ex (\<lambda>c. md_text (metadata c) = None) (chunks ctx)"
proof -
  from optimize_selected[OF assms] obtain tot
    where s: "select_from_docs (real_of_int (max_context_tokens p)) top_k query
                (sorted_docs_of w p matches query) ([], 0) = Inr (chunks ctx, tot)"
    by blast
  have "list_all (\<lambda>c. md_text (metadata c) \<noteq> None) (chunks ctx)"
    by (rule select_from_docs_text[OF s]) simp
  then show ?thesis by (simp add: list_all_iff list_ex_iff)
qed



lemma general_response_cases:
  "generate_general_knowledge_response w h query tenant_id user_id =
     (case llm_invoke w h (GeneralPrompt (is_visualization_request query) query) of
        Inr content \<Rightarrow>
          (\<lparr>answer = strip content, sources = [], confidence = 8 / 10,
            context_quality = 8 / 10, response_type = ''general_knowledge''\<rparr>,
           h @ [EvGenerate (GeneralPrompt (is_visualization_request query) query)])
      | Inl e \<Rightarrow>
          (\<lparr>answer = apology_general, sources = [], confidence = 0,
            context_quality = 0, response_type = ''error''\<rparr>,
           h @ [EvGenerate (GeneralPrompt (is_visualization_request query) query)]))"
  by (simp add: generate_general_knowledge_response_def Let_def)

lemma query_documents_general_path:
  assumes miss: "map_of (query_cache p)
                   (generate_semantic_cache_key (preprocess_query query) tenant_id) = None"
    and emb: "embed_text w h (preprocess_query query) = Inr v"
    and srch: "query_vectors w (h @ [EvEmbed (preprocess_query query)]) v tenant_id
                 (get_dynamic_top_k query top_k) = Inr matches"
    and gate: "matches = [] \<or> max_score matches < similarity_threshold p"
  shows "query_documents w p h query tenant_id user_id top_k =
           (case llm_invoke w (h @ [EvEmbed (preprocess_query query),
                                    EvSearch tenant_id (get_dynamic_top_k query top_k)])
                   (GeneralPrompt (is_visualization_request query) query) of
              Inr content \<Rightarrow>
                (Inr \<lparr>answer = strip content, sources = [], confidence = 8 / 10,
                      context_quality = 8 / 10, response_type = ''general_knowledge'',
                      rich_content = generate_rich_content_for_general_query w query,
                      processing_metadata = GeneralMetadata True\<rparr>, p,
                 h @ [EvEmbed (preprocess_query query),
                      EvSearch tenant_id (get_dynamic_top_k query top_k),
                      EvGenerate (GeneralPrompt (is_visualization_request query) query)])
            | Inl e \<Rightarrow>
                (Inr \<lparr>answer = apology_general, sources = [], confidence = 0,
                      context_quality = 0, response_type = ''error'',
                      rich_content = generate_rich_content_for_general_query w query,
                      processing_metadata = GeneralMetadata True\<rparr>, p,
                 h @ [EvEmbed (preprocess_query query),
                      EvSearch tenant_id (get_dynamic_top_k query top_k),
                      EvGenerate (GeneralPrompt (is_visualization_request query) query)]))"
proof -
  have g: "(matches = [] \<or> max_score matches < similarity_threshold p) = True"
    using gate by simp
  show ?thesis
    by (cases "llm_invoke w (h @ [EvEmbed (preprocess_query query),
                                  EvSearch tenant_id (get_dynamic_top_k query top_k)])
                 (GeneralPrompt (is_visualization_request query) query)")
       (simp_all add: query_documents_def Let_def miss emb srch g general_response_cases)
qed

lemma query_documents_document_path:
  assumes miss: "map_of (query_cache p)
                   (generate_semantic_cache_key (preprocess_query query) tenant_id) = None"
    and emb: "embed_text w h (preprocess_query query) = Inr v"
    and srch: "query_vectors w (h @ [EvEmbed (preprocess_query query)]) v tenant_id
                 (get_dynamic_top_k query top_k) = Inr matches"
    and gate: "\<not> (matches = [] \<or> max_score matches < similarity_threshold p)"
    and opt: "optimize_context_selection w p matches query top_k = Inr ctx"
    and gen: "generate_enterprise_answer_with_fallback w p
                (h @ [EvEmbed (preprocess_query query),
                      EvSearch tenant_id (get_dynamic_top_k query top_k), EvOptimize top_k])
                query ctx (get_dynamic_top_k query top_k) tenant_id = (Inr a, h4)"
  shows "query_documents w p h query tenant_id user_id top_k =
           (Inr \<lparr>answer = a, sources = format_enterprise_sources (ctx_sources ctx),
                 confidence = ctx_confidence ctx, context_quality = quality_score ctx,
                 response_type = ''document_based'',
                 rich_content = generate_rich_content w a (chunks ctx) query,
                 processing_metadata =
                   DocumentMetadata (length matches) (length (chunks ctx))
                     (avg_relevance ctx) (document_types ctx)\<rparr>,
            cache_result p (generate_semantic_cache_key (preprocess_query query) tenant_id)
              \<lparr>answer = a, sources = format_enterprise_sources (ctx_sources ctx),
               confidence = ctx_confidence ctx, context_quality = quality_score ctx,
               response_type = ''document_based'',
               rich_content = generate_rich_content w a (chunks ctx) query,
               processing_metadata =
                 DocumentMetadata (length matches) (length (chunks ctx))
                   (avg_relevance ctx) (document_types ctx)\<rparr>,
            h4)"
proof -
  have g: "(matches = [] \<or> max_score matches < similarity_threshold p) = False"
    using gate by simp
  show ?thesis
    using gen by (simp add: query_documents_def Let_def miss emb srch g opt)
qed

lemma map_of_dict_set: "map_of (dict_set d k v) k = Some v"
  by (induction d) auto

lemma cache_result_lookup: "map_of (query_cache (cache_result p k r)) k = Some r"
  by (simp add: cache_result_def map_of_dict_set)


lemma retry_embed_fails:
  "embed_text w h q = Inl e \<Longrightarrow> retry_with_more_data w p h q t = (Inl e, h @ [EvEmbed q])"
  by (simp add: retry_with_more_data_def)

lemma retry_search_fails:
  "embed_text w h q = Inr v \<Longrightarrow> query_vectors w (h @ [EvEmbed q]) v t 50 = Inl e
     \<Longrightarrow> retry_with_more_data w p h q t = (Inl e, h @ [EvEmbed q, EvSearch t 50])"
  by (simp add: retry_with_more_data_def Let_def)

lemma retry_no_match:
  "embed_text w h q = Inr v \<Longrightarrow> query_vectors w (h @ [EvEmbed q]) v t 50 = Inr []
     \<Longrightarrow> retry_with_more_data w p h q t = (Inr None, h @ [EvEmbed q, EvSearch t 50])"
  by (simp add: retry_with_more_data_def Let_def)

lemma retry_optimize_fails:
  "embed_text w h q = Inr v \<Longrightarrow> query_vectors w (h @ [EvEmbed q]) v t 50 = Inr ms
     \<Longrightarrow> ms \<noteq> [] \<Longrightarrow> optimize_context_selection w p ms q 50 = Inl e
     \<Longrightarrow> retry_with_more_data w p h q t = (Inl e, h @ [EvEmbed q, EvSearch t 50, EvOptimize 50])"
  by (simp add: retry_with_more_data_def Let_def)

lemma retry_regenerates:
  "embed_text w h q = Inr v \<Longrightarrow> query_vectors w (h @ [EvEmbed q]) v t 50 = Inr ms
     \<Longrightarrow> ms \<noteq> [] \<Longrightarrow> optimize_context_selection w p ms q 50 = Inr ctx2
     \<Longrightarrow> generate_enterprise_answer w (h @ [EvEmbed q, EvSearch t 50, EvOptimize 50]) q ctx2
           = (Inr a2, h2)
     \<Longrightarrow> retry_with_more_data w p h q t = (Inr (Some a2), h2)"
  by (simp add: retry_with_more_data_def Let_def)

lemma generate_enterprise_answer_total:
  assumes "\<not> list_ex (\<lambda>c. md_text (metadata c) = None) (chunks ctx)"
  shows "\<exists>a req. generate_enterprise_answer w h q ctx = (Inr a, h @ [EvGenerate req])"
proof (cases "chunks ctx = []")
  case True
  then show ?thesis
    by (cases "llm_invoke w h (GeneralPrompt (is_visualization_request q) q)")
       (simp_all add: generate_enterprise_answer_def general_response_cases)
next
  case False
  with assms show ?thesis
    by (cases "llm_invoke w h (EnterprisePrompt (select_system_prompt (document_types ctx)) q
                                 (chunks ctx))")
       (simp_all add: generate_enterprise_answer_def Let_def)
qed

lemma fallback_no_retry:
  "generate_enterprise_answer w h q ctx = (Inr a1, h1)
     \<Longrightarrow> \<not> (has_missing_data a1 \<and> is_analytical_query q \<and> k < 40)
     \<Longrightarrow> generate_enterprise_answer_with_fallback w p h q ctx k t = (Inr a1, h1)"
  by (auto simp: generate_enterprise_answer_with_fallback_def)

lemma fallback_retry_raised:
  "generate_enterprise_answer w h q ctx = (Inr a1, h1)
     \<Longrightarrow> has_missing_data a1 \<and> is_analytical_query q \<and> k < 40
     \<Longrightarrow> retry_with_more_data w p h1 q t = (Inl e, h2)
     \<Longrightarrow> generate_enterprise_answer_with_fallback w p h q ctx k t = (Inr a1, h2)"
  by (simp add: generate_enterprise_answer_with_fallback_def)

lemma fallback_retry_empty:
  "generate_enterprise_answer w h q ctx = (Inr a1, h1)
     \<Longrightarrow> has_missing_data a1 \<and> is_analytical_query q \<and> k < 40
     \<Longrightarrow> retry_with_more_data w p h1 q t = (Inr None, h2)
     \<Longrightarrow> generate_enterprise_answer_with_fallback w p h q ctx k t = (Inr a1, h2)"
  by (simp add: generate_enterprise_answer_with_fallback_def)

lemma fallback_retry_answer:
  "generate_enterprise_answer w h q ctx = (Inr a1, h1)
     \<Longrightarrow> has_missing_data a1 \<and> is_analytical_query q \<and> k < 40
     \<Longrightarrow> retry_with_more_data w p h1 q t = (Inr (Some a2), h2)
     \<Longrightarrow> generate_enterprise_answer_with_fallback w p h q ctx k t
           = (Inr (if \<not> has_missing_data a2 \<or> length a2 > length a1 then a2 else a1), h2)"
  by (simp add: generate_enterprise_answer_with_fallback_def)

text \<open>
  C6, as the code has it. When the cache has no entry for the query, the embedding
  succeeds and the vector search returns no match or only matches whose best raw score is
  below \<open>similarity_threshold\<close>, the pipeline takes the general-knowledge path: it calls the
  language model once with the general prompt, runs no context optimization and returns a
  result without sources. If the model answers, the result has
  \<open>response_type = "general_knowledge"\<close> and confidence 0.8; if the model raises, the result
  has \<open>response_type = "error"\<close>, confidence 0 and the apology as its answer.
\<close>

theorem quality_gate_general_knowledge:
  assumes miss: "map_of (query_cache p)
                   (generate_semantic_cache_key (preprocess_query query) tenant_id) = None"
    and emb: "embed_text w h (preprocess_query query) = Inr v"
    and srch: "query_vectors w (h @ [EvEmbed (preprocess_query query)]) v tenant_id
                 (get_dynamic_top_k query top_k) = Inr matches"
    and gate: "matches = [] \<or> max_score matches < similarity_threshold p"
    and res: "query_documents w p h query tenant_id user_id top_k = (out, p', h')"
  shows "\<exists>r. out = Inr r \<and> sources r = []
           \<and> h' = h @ [EvEmbed (preprocess_query query),
                        EvSearch tenant_id (get_dynamic_top_k query top_k),
                        EvGenerate (GeneralPrompt (is_visualization_request query) query)]
           \<and> optimization_count (drop (length h) h') = 0
           \<and> (case llm_invoke w (h @ [EvEmbed (preprocess_query query),
                                      EvSearch tenant_id (get_dynamic_top_k query top_k)])
                     (GeneralPrompt (is_visualization_request query) query) of
                 Inr content \<Rightarrow> response_type r = ''general_knowledge'' \<and> confidence r = 8 / 10
                                \<and> answer r = strip content
               | Inl e \<Rightarrow> response_type r = ''error'' \<and> confidence r = 0
                          \<and> answer r = apology_general)"
proof -
  note q = query_documents_general_path[OF miss emb srch gate, of user_id]
  show ?thesis
  proof (cases "llm_invoke w (h @ [EvEmbed (preprocess_query query),
                                   EvSearch tenant_id (get_dynamic_top_k query top_k)])
                  (GeneralPrompt (is_visualization_request query) query)")
    case (Inl e)
    from res[unfolded q Inl] have "out = Inr \<lparr>answer = apology_general, sources = [], confidence = 0,
                      context_quality = 0, response_type = ''error'',
                      rich_content = generate_rich_content_for_general_query w query,
                      processing_metadata = GeneralMetadata True\<rparr>"
      and "p' = p"
      and "h' = h @ [EvEmbed (preprocess_query query),
                      EvSearch tenant_id (get_dynamic_top_k query top_k),
                      EvGenerate (GeneralPrompt (is_visualization_request query) query)]"
      by simp_all
    then show ?thesis by (simp add: Inl optimization_count_def)
  next
    case (Inr content)
    from res[unfolded q Inr] have "out = Inr \<lparr>answer = strip content, sources = [], confidence = 8 / 10,
                      context_quality = 8 / 10, response_type = ''general_knowledge'',
                      rich_content = generate_rich_content_for_general_query w query,
                      processing_metadata = GeneralMetadata True\<rparr>"
      and "p' = p"
      and "h' = h @ [EvEmbed (preprocess_query query),
                      EvSearch tenant_id (get_dynamic_top_k query top_k),
                      EvGenerate (GeneralPrompt (is_visualization_request query) query)]"
      by simp_all
    then show ?thesis by (simp add: Inr optimization_count_def)
  qed
qed


theorem quality_gate_general_knowledge_witness:
  "map_of (query_cache small_cache)
     (generate_semantic_cache_key (preprocess_query ''hello'') ''t'') = None
   \<and> embed_text no_match_world [] (preprocess_query ''hello'') = Inr []
   \<and> query_vectors no_match_world ([] @ [EvEmbed (preprocess_query ''hello'')]) [] ''t''
        (get_dynamic_top_k ''hello'' 8) = Inr []
   \<and> map_sum id response_type (fst (query_documents no_match_world small_cache [] ''hello'' ''t'' ''u'' 8))
        = Inr ''general_knowledge''
   \<and> map_sum id confidence (fst (query_documents no_match_world small_cache [] ''hello'' ''t'' ''u'' 8))
        = Inr (8 / 10)"
proof -
  have miss: "map_of (query_cache small_cache)
                (generate_semantic_cache_key (preprocess_query ''hello'') ''t'') = None"
    by (simp add: small_cache_def)
  have emb: "embed_text no_match_world [] (preprocess_query ''hello'') = Inr []"
    by (simp add: no_match_world_def)
  have srch: "query_vectors no_match_world ([] @ [EvEmbed (preprocess_query ''hello'')]) [] ''t''
                (get_dynamic_top_k ''hello'' 8) = Inr []"
    by (simp add: no_match_world_def)
  have gate: "([]::vmatch list) = [] \<or> max_score [] < similarity_threshold small_cache"
    by simp
  have res: "query_documents no_match_world small_cache [] ''hello'' ''t'' ''u'' 8 =
               (fst (query_documents no_match_world small_cache [] ''hello'' ''t'' ''u'' 8),
                fst (snd (query_documents no_match_world small_cache [] ''hello'' ''t'' ''u'' 8)),
                snd (snd (query_documents no_match_world small_cache [] ''hello'' ''t'' ''u'' 8)))"
    by simp
  have llm: "llm_invoke no_match_world h req = Inr ''first''"
    if "generation_count h = 0" for h req
    using that by (simp add: no_match_world_def forgetful_llm_def generation_count_def
        list_ex_iff filter_empty_conv)
  have l: "llm_invoke no_match_world
             ([] @ [EvEmbed (preprocess_query ''hello''), EvSearch ''t'' (get_dynamic_top_k ''hello'' 8)])
             (GeneralPrompt (is_visualization_request ''hello'') ''hello'') = Inr ''first''"
    by (rule llm) (simp add: generation_count_def)
  from quality_gate_general_knowledge[OF miss emb srch gate res] l miss emb srch
  show ?thesis by auto
qed

text \<open>
  The search returns no match and the language model raises: the result is of type
  "error" with confidence 0.
\<close>

theorem quality_gate_llm_failure_counterexample:
  "query_vectors failing_llm_no_match_world [EvEmbed ''hello''] [] ''t'' 8 = Inr []
   \<and> map_sum id response_type
        (fst (query_documents failing_llm_no_match_world small_cache [] ''hello'' ''t'' ''u'' 8))
        = Inr ''error''
   \<and> map_sum id confidence
        (fst (query_documents failing_llm_no_match_world small_cache [] ''hello'' ''t'' ''u'' 8))
        = Inr 0"
  by code_simp







text \<open>
  C7, as the code has it. Let the first generation return an answer. If that answer has no
  missing-data phrase, or the query is not analytical, or the breadth used is 40 or more,
  no retry occurs: the answer is returned and no further call is made. Otherwise exactly
  one retry is attempted: the query is embedded again, followed by at most one search, at
  breadth 50, at most one optimization and at most one generation. When the embedding and
  the search succeed with at least one match and the optimization (with \<open>top_k = 50\<close>)
  returns a context, the answer is generated once more, and the new answer replaces the
  first exactly when it has no missing-data phrase or is strictly longer. When the
  embedding, the search or the optimization raises, or the search returns no match, the
  first answer is returned and nothing is generated again.
\<close>

theorem missing_data_retry:
  assumes first: "generate_enterprise_answer w h query ctx = (Inr a1, h1)"
    and res: "generate_enterprise_answer_with_fallback w p h query ctx k tenant_id = (out, h')"
  shows "(\<not> (has_missing_data a1 \<and> is_analytical_query query \<and> k < 40)
            \<longrightarrow> out = Inr a1 \<and> h' = h1)
   \<and> (has_missing_data a1 \<and> is_analytical_query query \<and> k < 40 \<longrightarrow>
        (\<exists>evs. h' = h1 @ EvEmbed query # evs
               \<and> (search_breadths evs = [] \<or> search_breadths evs = [50])
               \<and> generation_count evs \<le> 1 \<and> optimization_count evs \<le> 1)
        \<and> (\<forall>v ms ctx2.
              embed_text w h1 query = Inr v
              \<and> query_vectors w (h1 @ [EvEmbed query]) v tenant_id 50 = Inr ms \<and> ms \<noteq> []
              \<and> optimize_context_selection w p ms query 50 = Inr ctx2 \<longrightarrow>
              (\<exists>a2 req.
                 generate_enterprise_answer w
                   (h1 @ [EvEmbed query, EvSearch tenant_id 50, EvOptimize 50]) query ctx2
                   = (Inr a2, h')
                 \<and> h' = h1 @ [EvEmbed query, EvSearch tenant_id 50, EvOptimize 50, EvGenerate req]
                 \<and> out = Inr (if \<not> has_missing_data a2 \<or> length a2 > length a1
                               then a2 else a1)))
        \<and> (\<forall>v ms.
              (isl (embed_text w h1 query)
               \<or> embed_text w h1 query = Inr v
                  \<and> isl (query_vectors w (h1 @ [EvEmbed query]) v tenant_id 50)
               \<or> embed_text w h1 query = Inr v
                  \<and> query_vectors w (h1 @ [EvEmbed query]) v tenant_id 50 = Inr []
               \<or> embed_text w h1 query = Inr v
                  \<and> query_vectors w (h1 @ [EvEmbed query]) v tenant_id 50 = Inr ms
                  \<and> isl (optimize_context_selection w p ms query 50))
              \<longrightarrow> out = Inr a1 \<and> generation_count (drop (length h1) h') = 0))"
proof (cases "has_missing_data a1 \<and> is_analytical_query query \<and> k < 40")
  case False
  from res[unfolded fallback_no_retry[OF first False]] False show ?thesis by simp
next
  case R: True
  show ?thesis
  proof (cases "embed_text w h1 query")
    case (Inl e)
    note r = retry_embed_fails[OF Inl, of p tenant_id]
    from res[unfolded fallback_retry_raised[OF first R r]]
    have o: "out = Inr a1" and h: "h' = h1 @ [EvEmbed query]" by simp_all
    show ?thesis using R
      by (simp add: o h Inl search_breadths_def generation_count_def optimization_count_def)
  next
    case emb: (Inr v)
    show ?thesis
    proof (cases "query_vectors w (h1 @ [EvEmbed query]) v tenant_id 50")
      case (Inl e)
      note r = retry_search_fails[OF emb Inl, of p]
      from res[unfolded fallback_retry_raised[OF first R r]]
      have o: "out = Inr a1" and h: "h' = h1 @ [EvEmbed query, EvSearch tenant_id 50]"
        by simp_all
      show ?thesis using R
        by (simp add: o h emb Inl search_breadths_def generation_count_def optimization_count_def)
    next
      case srch: (Inr ms)
      show ?thesis
      proof (cases "ms = []")
        case True
        note r = retry_no_match[OF emb srch[unfolded True], of p]
        from res[unfolded fallback_retry_empty[OF first R r]]
        have o: "out = Inr a1" and h: "h' = h1 @ [EvEmbed query, EvSearch tenant_id 50]"
          by simp_all
        show ?thesis using R
          by (simp add: o h emb srch True search_breadths_def generation_count_def
              optimization_count_def)
      next
        case ne: False
        show ?thesis
        proof (cases "optimize_context_selection w p ms query 50")
          case (Inl e)
          note r = retry_optimize_fails[OF emb srch ne Inl]
          from res[unfolded fallback_retry_raised[OF first R r]]
          have o: "out = Inr a1"
            and h: "h' = h1 @ [EvEmbed query, EvSearch tenant_id 50, EvOptimize 50]"
            by simp_all
          show ?thesis using R
            by (simp add: o h emb srch ne Inl search_breadths_def generation_count_def
                optimization_count_def)
        next
          case opt: (Inr ctx2)
          let ?h3 = "h1 @ [EvEmbed query, EvSearch tenant_id 50, EvOptimize 50]"
          from generate_enterprise_answer_total[OF optimize_chunks_have_text[OF opt]]
          obtain a2 req where g2: "generate_enterprise_answer w ?h3 query ctx2
                                     = (Inr a2, ?h3 @ [EvGenerate req])"
            by blast
          note r = retry_regenerates[OF emb srch ne opt g2]
          from res[unfolded fallback_retry_answer[OF first R r]]
          have o: "out = Inr (if \<not> has_missing_data a2 \<or> length a2 > length a1 then a2 else a1)"
            and h: "h' = ?h3 @ [EvGenerate req]"
            by simp_all
          have g2': "generate_enterprise_answer w ?h3 query ctx2 = (Inr a2, h')"
            using g2 h by simp
          show ?thesis using R g2'
            by (auto simp: o h emb srch ne opt search_breadths_def generation_count_def
                optimization_count_def)
        qed
      qed
    qed
  qed
qed

theorem missing_data_retry_witness:
  "fst (generate_enterprise_answer retry_world [] ''average delivery time'' context_one)
     = Inr ''The carrier data is missing.''
   \<and> has_missing_data ''The carrier data is missing.''
   \<and> is_analytical_query ''average delivery time'' \<and> (30::int) < 40
   \<and> fst (generate_enterprise_answer_with_fallback retry_world small_cache []
             ''average delivery time'' context_one 30 ''t'')
       = Inr ''Average delivery time: 3 days.''
   \<and> search_breadths (snd (generate_enterprise_answer_with_fallback retry_world small_cache []
             ''average delivery time'' context_one 30 ''t'')) = [50]
   \<and> generation_count (snd (generate_enterprise_answer_with_fallback retry_world small_cache []
             ''average delivery time'' context_one 30 ''t'')) = 2"
proof -
  have f: "fst (generate_enterprise_answer retry_world [] ''average delivery time'' context_one)
             = Inr ''The carrier data is missing.''"
    by code_simp
  have first: "generate_enterprise_answer retry_world [] ''average delivery time'' context_one
                 = (Inr ''The carrier data is missing.'',
                    snd (generate_enterprise_answer retry_world [] ''average delivery time'' context_one))"
    using f by (simp add: prod_eq_iff)
  have res: "generate_enterprise_answer_with_fallback retry_world small_cache []
               ''average delivery time'' context_one 30 ''t''
             = (fst (generate_enterprise_answer_with_fallback retry_world small_cache []
                       ''average delivery time'' context_one 30 ''t''),
                snd (generate_enterprise_answer_with_fallback retry_world small_cache []
                       ''average delivery time'' context_one 30 ''t''))"
    by simp
  have m: "has_missing_data ''The carrier data is missing.''" by code_simp
  have a: "is_analytical_query ''average delivery time''" by code_simp
  have o: "fst (generate_enterprise_answer_with_fallback retry_world small_cache []
             ''average delivery time'' context_one 30 ''t'')
           = Inr ''Average delivery time: 3 days.''"
    by code_simp
  have s: "search_breadths (snd (generate_enterprise_answer_with_fallback retry_world small_cache []
             ''average delivery time'' context_one 30 ''t'')) = [50]"
    by code_simp
  have g: "generation_count (snd (generate_enterprise_answer_with_fallback retry_world small_cache []
             ''average delivery time'' context_one 30 ''t'')) = 2"
    by code_simp
  from missing_data_retry[OF first res] f m a o s g show ?thesis by simp
qed

text \<open>
  The first answer reports missing data, the query is analytical and the breadth is 30, but
  the search at breadth 50 returns no match: there is no optimization and no second
  generation.
\<close>

theorem missing_data_retry_no_match_counterexample:
  "fst (generate_enterprise_answer retry_empty_world [] ''average delivery time'' context_one)
     = Inr ''The carrier data is missing.''
   \<and> has_missing_data ''The carrier data is missing.''
   \<and> is_analytical_query ''average delivery time'' \<and> (30::int) < 40
   \<and> search_breadths (snd (generate_enterprise_answer_with_fallback retry_empty_world small_cache []
             ''average delivery time'' context_one 30 ''t'')) = [50]
   \<and> optimization_count (snd (generate_enterprise_answer_with_fallback retry_empty_world
             small_cache [] ''average delivery time'' context_one 30 ''t'')) = 0
   \<and> generation_count (snd (generate_enterprise_answer_with_fallback retry_empty_world
             small_cache [] ''average delivery time'' context_one 30 ''t'')) = 1"
  by code_simp

section \<open>The document-grounded path fills the cache\<close>

text \<open>
  A query whose key is in the cache is answered with the cached payload, unchanged, and
  without any call to a collaborator.
\<close>

lemma cached_result_replayed:
  "map_of (query_cache p) (generate_semantic_cache_key (preprocess_query query) tenant_id) = Some r
     \<Longrightarrow> query_documents w p h query tenant_id user_id top_k = (Inr r, p, h)"
  by (simp add: query_documents_def Let_def)

text \<open>
  A result of the document-grounded path is stored under the query's key, so the same
  tenant and query get it back from the pipeline state that the first call returned.
\<close>

lemma document_result_cached:
  assumes miss: "map_of (query_cache p)
                   (generate_semantic_cache_key (preprocess_query query) tenant_id) = None"
    and emb: "embed_text w h (preprocess_query query) = Inr v"
    and srch: "query_vectors w (h @ [EvEmbed (preprocess_query query)]) v tenant_id
                 (get_dynamic_top_k query top_k) = Inr matches"
    and gate: "\<not> (matches = [] \<or> max_score matches < similarity_threshold p)"
    and res: "query_documents w p h query tenant_id user_id top_k = (Inr r, p', h')"
  shows "query_documents w p' h2 query tenant_id user_id2 top_k2 = (Inr r, p', h2)"
proof -
  let ?h3 = "h @ [EvEmbed (preprocess_query query),
                  EvSearch tenant_id (get_dynamic_top_k query top_k), EvOptimize top_k]"
  have g: "(matches = [] \<or> max_score matches < similarity_threshold p) = False"
    using gate by simp
  obtain ctx where opt: "optimize_context_selection w p matches query top_k = Inr ctx"
    using res
    by (cases "optimize_context_selection w p matches query top_k")
       (simp_all add: query_documents_def Let_def miss emb srch g)
  obtain o4 h4 where fb: "generate_enterprise_answer_with_fallback w p ?h3 query ctx
                           (get_dynamic_top_k query top_k) tenant_id = (o4, h4)"
    by (cases "generate_enterprise_answer_with_fallback w p ?h3 query ctx
                 (get_dynamic_top_k query top_k) tenant_id")
  obtain a where a: "o4 = Inr a"
    using res fb
    by (cases o4) (simp_all add: query_documents_def Let_def miss emb srch g opt)
  note q = query_documents_document_path[OF miss emb srch gate opt fb[unfolded a], of user_id]
  from res[unfolded q]
  have "map_of (query_cache p')
          (generate_semantic_cache_key (preprocess_query query) tenant_id) = Some r"
    by (auto simp: cache_result_lookup)
  then show ?thesis by (rule cached_result_replayed)
qed

end
